theory Spec2Isabelle
  imports Complex_Main
begin

section \<open>JavaScript numbers\<close>

text \<open>
  The dashboard script computes with JavaScript numbers. A number is modelled as an exact
  real or one of the three special values the script can produce: \<open>Math.log\<close> of zero is
  \<open>-Infinity\<close> and of a negative number is \<open>NaN\<close>. The finite values are idealised: the
  rounding error of binary floating point and overflow are not part of the model, and zero
  carries no sign. The operations below follow the arithmetic of the language on the
  special values.
\<close>

datatype jsnum = Fin real | PInf | NInf | NaN

fun js_neg :: "jsnum \<Rightarrow> jsnum" where
  "js_neg (Fin a) = Fin (- a)"
| "js_neg PInf = NInf"
| "js_neg NInf = PInf"
| "js_neg NaN = NaN"

fun js_add :: "jsnum \<Rightarrow> jsnum \<Rightarrow> jsnum" where
  "js_add (Fin a) (Fin b) = Fin (a + b)"
| "js_add NaN _ = NaN"
| "js_add _ NaN = NaN"
| "js_add PInf NInf = NaN"
| "js_add NInf PInf = NaN"
| "js_add PInf _ = PInf"
| "js_add NInf _ = NInf"
| "js_add _ PInf = PInf"
| "js_add _ NInf = NInf"

definition js_sub :: "jsnum \<Rightarrow> jsnum \<Rightarrow> jsnum" where
  "js_sub a b = js_add a (js_neg b)"

text \<open>The sign of an infinite product or quotient: \<open>Infinity * 0\<close> is \<open>NaN\<close>.\<close>

definition signed_inf :: "real \<Rightarrow> jsnum" where
  "signed_inf s = (if s = 0 then NaN else if 0 < s then PInf else NInf)"

fun js_mul :: "jsnum \<Rightarrow> jsnum \<Rightarrow> jsnum" where
  "js_mul (Fin a) (Fin b) = Fin (a * b)"
| "js_mul NaN _ = NaN"
| "js_mul _ NaN = NaN"
| "js_mul PInf (Fin b) = signed_inf b"
| "js_mul NInf (Fin b) = signed_inf (- b)"
| "js_mul (Fin a) PInf = signed_inf a"
| "js_mul (Fin a) NInf = signed_inf (- a)"
| "js_mul PInf PInf = PInf"
| "js_mul NInf NInf = PInf"
| "js_mul PInf NInf = NInf"
| "js_mul NInf PInf = NInf"

fun js_div :: "jsnum \<Rightarrow> jsnum \<Rightarrow> jsnum" where
  "js_div (Fin a) (Fin b) = (if b = 0 then signed_inf a else Fin (a / b))"
| "js_div NaN _ = NaN"
| "js_div _ NaN = NaN"
| "js_div (Fin a) PInf = Fin 0"
| "js_div (Fin a) NInf = Fin 0"
| "js_div PInf (Fin b) = (if 0 \<le> b then PInf else NInf)"
| "js_div NInf (Fin b) = (if 0 \<le> b then NInf else PInf)"
| "js_div PInf PInf = NaN"
| "js_div PInf NInf = NaN"
| "js_div NInf PInf = NaN"
| "js_div NInf NInf = NaN"

text \<open>Comparison: every comparison with \<open>NaN\<close> is false.\<close>

fun js_le :: "jsnum \<Rightarrow> jsnum \<Rightarrow> bool" where
  "js_le (Fin a) (Fin b) = (a \<le> b)"
| "js_le NaN _ = False"
| "js_le _ NaN = False"
| "js_le NInf _ = True"
| "js_le _ PInf = True"
| "js_le PInf _ = False"
| "js_le _ NInf = False"

definition js_gt :: "jsnum \<Rightarrow> jsnum \<Rightarrow> bool" where
  "js_gt a b = (a \<noteq> NaN \<and> b \<noteq> NaN \<and> \<not> js_le a b)"

fun Math_min :: "jsnum \<Rightarrow> jsnum \<Rightarrow> jsnum" where
  "Math_min NaN _ = NaN"
| "Math_min _ NaN = NaN"
| "Math_min a b = (if js_le a b then a else b)"

fun Math_max :: "jsnum \<Rightarrow> jsnum \<Rightarrow> jsnum" where
  "Math_max NaN _ = NaN"
| "Math_max _ NaN = NaN"
| "Math_max a b = (if js_le a b then b else a)"

text \<open>\<open>Math.round\<close> rounds to the nearest integer, a half towards \<open>+Infinity\<close>.\<close>

fun Math_round :: "jsnum \<Rightarrow> jsnum" where
  "Math_round (Fin a) = Fin (of_int \<lfloor>a + 1 / 2\<rfloor>)"
| "Math_round x = x"

fun Math_log :: "jsnum \<Rightarrow> jsnum" where
  "Math_log (Fin a) = (if 0 < a then Fin (ln a) else if a = 0 then NInf else NaN)"
| "Math_log PInf = PInf"
| "Math_log NInf = NaN"
| "Math_log NaN = NaN"

section \<open>The local risk formula\<close>

text \<open>
  The form state of the dashboard, \<open>{ sex, age, med, dose }\<close>. The two numbers come from
  \<open>Number(e.target.value)\<close> of a number field and a range slider, or from the initial
  state: they are finite. A record scheme stands for an object that has at least these
  four properties.
\<close>

record form_state =
  sex :: string
  age :: real
  med :: string
  dose :: real

text \<open>
  A value parsed from a JSON text. An object is the list of its own properties; a
  property read that finds nothing yields \<open>undefined\<close>, which is \<open>None\<close> below.
\<close>

datatype json =
    JNull
  | JBool bool
  | JNum real
  | JStr string
  | JArr "json list"
  | JObj "(string \<times> json) list"

text \<open>
  A template literal is kept as its pieces: the literal text and the values that are
  interpolated, so that no conversion of a value to a string has to be modelled. An error
  carries its message; \<open>MessageOf\<close> is \<open>error.message\<close> of an error whose text the engine
  chooses.
\<close>

datatype piece = Str string | Num jsnum | Val "json option" | MessageOf js_error
  and js_error = TypeError | SyntaxError | NetworkError | Error "piece list"

record recommendation =
  rec_text :: "piece list"
  rec_dose :: "jsnum option"

record risk_result =
  times_pts :: "jsnum list"
  femaleCurve :: "jsnum list"
  maleCurve :: "jsnum list"
  diffPct :: jsnum
  recommendation :: recommendation
  metab :: "piece list"

text \<open>
  An object literal is indexed by a string. Besides its own keys it answers to the names
  it inherits from \<open>Object.prototype\<close>, with a function or an object that is truthy and
  that arithmetic turns into \<open>NaN\<close>. The list is that of a page which does not extend
  \<open>Object.prototype\<close>.
\<close>

definition inherited_keys :: "string list" where
  "inherited_keys =
     [''constructor'', ''__defineGetter__'', ''__defineSetter__'', ''hasOwnProperty'',
      ''__lookupGetter__'', ''__lookupSetter__'', ''isPrototypeOf'', ''propertyIsEnumerable'',
      ''toString'', ''valueOf'', ''__proto__'', ''toLocaleString'']"

text \<open>
  The object literal \<open>{ sertraline: 0.12, amlodipine: 0.08, metformin: 0.04 }\<close> indexed by
  \<open>med\<close>; \<open>|| 0.06\<close> supplies the default for a missing key and for a falsy value. The
  result is only ever multiplied, so an inherited function or object is kept as \<open>NaN\<close>.
\<close>

definition medTable :: "(string \<times> real) list" where
  "medTable = [(''sertraline'', 0.12), (''amlodipine'', 0.08), (''metformin'', 0.04)]"

definition medBase :: "string \<Rightarrow> jsnum" where
  "medBase m = (case map_of medTable m of
                  None \<Rightarrow> if m \<in> set inherited_keys then NaN else Fin 0.06
                | Some v \<Rightarrow> if v = 0 then Fin 0.06 else Fin v)"

definition time_points :: "jsnum list" where
  "time_points = [Fin 1, Fin 4, Fin 8, Fin 12, Fin 48]"

definition sexMult :: "string \<Rightarrow> jsnum" where
  "sexMult sx = (if sx = ''female'' then Fin 1.26 else Fin 1.0)"

definition ageMult :: "real \<Rightarrow> jsnum" where
  "ageMult a = js_add (Fin 1) (js_div (Math_max (Fin 0) (js_sub (Fin a) (Fin 30))) (Fin 100))"

definition doseFactor :: "real \<Rightarrow> jsnum" where
  "doseFactor d =
     js_add (Fin 1) (js_div (Math_log (js_add (Fin 1) (js_div (Fin d) (Fin 20)))) (Fin 3))"

text \<open>
  The body of the two \<open>times.map((t, i) => ...)\<close> callbacks; \<open>sm\<close> is \<open>sexMult\<close> in the
  female curve and the constant \<open>1.0\<close> in the male curve.
\<close>

definition curve_point :: "jsnum \<Rightarrow> jsnum \<Rightarrow> jsnum \<Rightarrow> jsnum \<Rightarrow> nat \<Rightarrow> jsnum" where
  "curve_point base sm am df i =
     (let tFactor = js_add (Fin 1) (js_mul (Fin (real i)) (Fin 0.06));
          raw = js_mul (js_mul (js_mul (js_mul base tFactor) sm) am) df
      in Math_min (Fin 95) (js_div (Math_round (js_mul raw (Fin 10))) (Fin 10)))"

definition computeRiskCurve :: "'a form_state_scheme \<Rightarrow> risk_result" where
  "computeRiskCurve st =
     (let times = time_points;
          base = js_mul (medBase (med st)) (Fin 100);
          fc = map (\<lambda>(i, t). curve_point base (sexMult (sex st)) (ageMult (age st))
                                (doseFactor (dose st)) i) (enumerate 0 times);
          mc = map (\<lambda>(i, t). curve_point base (Fin 1.0) (ageMult (age st))
                                (doseFactor (dose st)) i) (enumerate 0 times);
          femaleAt50 = fc ! 2;
          maleAt50 = mc ! 2;
          dp = Math_round (js_mul (js_div (js_sub femaleAt50 maleAt50)
                                          (Math_max maleAt50 (Fin 1))) (Fin 100));
          rec = (if sex st = ''female'' \<and> js_gt dp (Fin 15)
                 then (let recDose = Math_max (Fin 1) (Math_round (js_mul (Fin (dose st)) (Fin 0.8)))
                       in \<lparr>rec_text = [Str ''Recommended: '', Num recDose,
                                        Str '' mg (optimized for female metabolism)''],
                           rec_dose = Some recDose\<rparr>)
                 else \<lparr>rec_text = [Str ''Recommended: '', Num (Fin (dose st)),
                                   Str '' mg (no change)''],
                      rec_dose = Some (Fin (dose st))\<rparr>);
          mt = (if med st = ''sertraline''
                then [Str ''Women metabolize sertraline ~25% slower in this demo model, which can increase plasma concentrations.'']
                else [Str ''Pharmacokinetic sex differences may alter drug exposure.''])
      in \<lparr>times_pts = times, femaleCurve = fc, maleCurve = mc, diffPct = dp,
          recommendation = rec, metab = mt\<rparr>)"

section \<open>The remote prediction and its conversion\<close>

text \<open>
  Reading a property of a parsed JSON value. Reading from \<open>null\<close> throws a
  \<open>TypeError\<close>; an object yields its own property of that name, if any; every other
  value has none of the properties read here (\<open>error\<close>, \<open>prediction\<close>, \<open>risk_probability\<close>,
  \<open>risk_label\<close>, \<open>confidence\<close>).
\<close>

fun get_prop :: "json \<Rightarrow> string \<Rightarrow> js_error + json option" where
  "get_prop JNull k = Inl TypeError"
| "get_prop (JObj kvs) k = Inr (map_of kvs k)"
| "get_prop v k = Inr None"

fun truthy :: "json option \<Rightarrow> bool" where
  "truthy None = False"
| "truthy (Some JNull) = False"
| "truthy (Some (JBool b)) = b"
| "truthy (Some (JNum r)) = (r \<noteq> 0)"
| "truthy (Some (JStr t)) = (t \<noteq> [])"
| "truthy (Some (JArr xs)) = True"
| "truthy (Some (JObj kvs)) = True"

text \<open>
  The conversion of an arbitrary value to a number (in \<open>riskProb * 100\<close> and
  \<open>riskProb > 0.7\<close>) is the language's own and is taken as a parameter \<open>toNumber\<close>.
\<close>

type_synonym coercion = "json option \<Rightarrow> jsnum"

text \<open>The part of \<open>convertAPIResponse\<close> after the shape of the response is settled.\<close>

definition build_result ::
  "coercion \<Rightarrow> json option \<Rightarrow> json option \<Rightarrow> json option \<Rightarrow> 'a form_state_scheme \<Rightarrow> risk_result"
where
  "build_result toNumber riskProb riskLabel confidence st =
     (let times = time_points;
          baseRisk = js_mul (toNumber riskProb) (Fin 100);
          fc = map (\<lambda>(i, t).
                  let tFactor = js_add (Fin 1) (js_mul (Fin (real i)) (Fin 0.05))
                  in Math_min (Fin 95)
                       (js_div (Math_round (js_mul (js_mul baseRisk tFactor) (Fin 10))) (Fin 10)))
                (enumerate 0 times);
          mc = map (\<lambda>(i, t).
                  let tFactor = js_add (Fin 1) (js_mul (Fin (real i)) (Fin 0.05));
                      maleRisk = js_mul baseRisk (Fin 0.8)
                  in Math_min (Fin 95)
                       (js_div (Math_round (js_mul (js_mul maleRisk tFactor) (Fin 10))) (Fin 10)))
                (enumerate 0 times);
          dp = Math_round (js_mul (js_div (js_sub (fc ! 2) (mc ! 2))
                                          (Math_max (mc ! 2) (Fin 1))) (Fin 100));
          recommendationText =
            (if js_gt (toNumber riskProb) (Fin 0.7)
             then [Str ''Recommended: '', Num (Math_round (js_mul (Fin (dose st)) (Fin 0.8))),
                   Str '' mg (reduced for high risk)'']
             else if js_gt (toNumber riskProb) (Fin 0.3)
             then [Str ''Recommended: '', Num (Fin (dose st)), Str '' mg (monitor closely)'']
             else [Str ''Recommended: '', Num (Fin (dose st)), Str '' mg''])
      in \<lparr>times_pts = times, femaleCurve = fc, maleCurve = mc, diffPct = dp,
          recommendation = \<lparr>rec_text = recommendationText, rec_dose = None\<rparr>,
          metab = [Str ''Risk Level: '', Val riskLabel, Str '' ('',
                   Num (Math_round (js_mul (toNumber riskProb) (Fin 100))),
                   Str ''% probability). Confidence: '', Val confidence, Str ''.'']\<rparr>)"

definition invalid_structure :: js_error where
  "invalid_structure = Error [Str ''Invalid API response structure'']"

text \<open>
  \<open>convertAPIResponse\<close>: the direct shape, then the nested one, else the error. In the
  nested branch \<open>apiResult\<close> is not \<open>null\<close> (the first read succeeded) and \<open>prediction\<close> is
  truthy, so only the tests of the source remain.
\<close>

definition convertAPIResponse ::
  "coercion \<Rightarrow> json \<Rightarrow> 'a form_state_scheme \<Rightarrow> js_error + risk_result"
where
  "convertAPIResponse toNumber apiResult st =
     (case get_prop apiResult ''risk_probability'' of
        Inl e \<Rightarrow> Inl e
      | Inr (Some rp) \<Rightarrow>
          (case (get_prop apiResult ''risk_label'', get_prop apiResult ''confidence'') of
             (Inr riskLabel, Inr confidence) \<Rightarrow>
               Inr (build_result toNumber (Some rp) riskLabel confidence st)
           | (Inl e, _) \<Rightarrow> Inl e
           | (_, Inl e) \<Rightarrow> Inl e)
      | Inr None \<Rightarrow>
          (case get_prop apiResult ''prediction'' of
             Inl e \<Rightarrow> Inl e
           | Inr None \<Rightarrow> Inl invalid_structure
           | Inr (Some prediction) \<Rightarrow>
               if \<not> truthy (Some prediction) then Inl invalid_structure
               else (case get_prop prediction ''risk_probability'' of
                       Inl e \<Rightarrow> Inl e
                     | Inr None \<Rightarrow> Inl invalid_structure
                     | Inr (Some rp) \<Rightarrow>
                         (case (get_prop prediction ''risk_label'',
                                get_prop prediction ''confidence'') of
                            (Inr riskLabel, Inr confidence) \<Rightarrow>
                              Inr (build_result toNumber (Some rp) riskLabel confidence st)
                          | (Inl e, _) \<Rightarrow> Inl e
                          | (_, Inl e) \<Rightarrow> Inl e))))"

definition medMap :: "(string \<times> string) list" where
  "medMap = [(''sertraline'', ''Atorvastatin''), (''amlodipine'', ''Metformin''),
             (''metformin'', ''Lisinopril'')]"

text \<open>
  \<open>medMap[medKey] || 'Atorvastatin'\<close>. For an inherited name the result is not a string:
  for \<open>__proto__\<close> it is the object \<open>Object.prototype\<close>, which \<open>JSON.stringify\<close> writes
  into the request body as \<open>{}\<close>, and for the other names it is a function, which
  \<open>JSON.stringify\<close> leaves out of the body.
\<close>

datatype medication_value = MedName string | PrototypeObject | InheritedFunction

definition getMedicationName :: "string \<Rightarrow> medication_value" where
  "getMedicationName medKey =
     (case map_of medMap medKey of
        None \<Rightarrow> if medKey = ''__proto__'' then PrototypeObject
                else if medKey \<in> set inherited_keys then InheritedFunction
                else MedName ''Atorvastatin''
      | Some n \<Rightarrow> if n = [] then MedName ''Atorvastatin'' else MedName n)"

record api_request =
  gender :: string
  req_age :: real
  medication :: medication_value
  req_dose :: real
  duration :: real

definition apiData :: "'a form_state_scheme \<Rightarrow> api_request" where
  "apiData st = \<lparr>gender = (if sex st = ''female'' then ''Female'' else ''Male''),
                 req_age = age st, medication = getMedicationName (med st),
                 req_dose = dose st, duration = 7\<rparr>"

text \<open>
  The outcome of \<open>fetch\<close> belongs to the network: the promise rejects, or a response
  arrives whose body \<open>response.json()\<close> parses or rejects.
\<close>

record response =
  ok :: bool
  status :: nat
  body :: "js_error + json"

type_synonym network = "api_request \<Rightarrow> js_error + response"

definition fetchFromAPI ::
  "coercion \<Rightarrow> network \<Rightarrow> 'a form_state_scheme \<Rightarrow> js_error + risk_result"
where
  "fetchFromAPI toNumber fetch st =
     (case fetch (apiData st) of
        Inl e \<Rightarrow> Inl e
      | Inr resp \<Rightarrow>
          if \<not> ok resp
          then Inl (Error [Str ''API request failed: '', Num (Fin (real (status resp)))])
          else (case body resp of
                  Inl e \<Rightarrow> Inl e
                | Inr apiResult \<Rightarrow>
                    (case get_prop apiResult ''error'' of
                       Inl e \<Rightarrow> Inl e
                     | Inr err \<Rightarrow>
                         if truthy err then Inl (Error [Val err])
                         else convertAPIResponse toNumber apiResult st)))"

section \<open>The dashboard controller\<close>

text \<open>
  The three text elements, the two chart datasets, the two sex buttons and the dose
  label. \<open>animateTextUpdate\<close> dims the element at once and replaces its content in a
  timer callback 150 ms later; all these timers have the same delay, so they fire in the
  order in which they were set, and the pending ones are kept as a queue.
\<close>

record element =
  innerHTML :: "piece list"
  opacity :: string
  transform :: string

datatype el_id = RiskDiffVal | RecommendText | MetabText

record dashboard =
  riskDiffVal :: element
  recommendText :: element
  metabText :: element
  chart_female :: "jsnum list"
  chart_male :: "jsnum list"
  sexM_classes :: "string list"
  sexF_classes :: "string list"
  doseVal :: "piece list"
  timers :: "(el_id \<times> piece list) list"

definition classList_add :: "string \<Rightarrow> string list \<Rightarrow> string list" where
  "classList_add c cs = (if c \<in> set cs then cs else cs @ [c])"

definition classList_remove :: "string \<Rightarrow> string list \<Rightarrow> string list" where
  "classList_remove c cs = removeAll c cs"

fun update_element :: "el_id \<Rightarrow> (element \<Rightarrow> element) \<Rightarrow> dashboard \<Rightarrow> dashboard" where
  "update_element RiskDiffVal f d = d\<lparr>riskDiffVal := f (riskDiffVal d)\<rparr>"
| "update_element RecommendText f d = d\<lparr>recommendText := f (recommendText d)\<rparr>"
| "update_element MetabText f d = d\<lparr>metabText := f (metabText d)\<rparr>"

definition animateTextUpdate :: "el_id \<Rightarrow> piece list \<Rightarrow> dashboard \<Rightarrow> dashboard" where
  "animateTextUpdate el newContent d =
     (let d1 = update_element el (\<lambda>e. e\<lparr>opacity := ''0.5'', transform := ''translateY(5px)''\<rparr>) d
      in d1\<lparr>timers := timers d1 @ [(el, newContent)]\<rparr>)"

definition timer_callback :: "el_id \<times> piece list \<Rightarrow> dashboard \<Rightarrow> dashboard" where
  "timer_callback t d =
     update_element (fst t)
       (\<lambda>e. e\<lparr>innerHTML := snd t, opacity := ''1'', transform := ''translateY(0)''\<rparr>) d"

text \<open>The event loop fires the \<open>n\<close> oldest pending timers, or all of them.\<close>

definition run_due :: "nat \<Rightarrow> dashboard \<Rightarrow> dashboard" where
  "run_due n d = (fold timer_callback (take n (timers d)) d)\<lparr>timers := drop n (timers d)\<rparr>"

definition run_timers :: "dashboard \<Rightarrow> dashboard" where
  "run_timers d = run_due (length (timers d)) d"

text \<open>
  \<open>updateAll\<close>. The statements of the outer \<open>try\<close> block: the loading texts, the request
  with its own handler that falls back to \<open>computeRiskCurve\<close>, the chart and the result
  texts. While the request is pending, \<open>k\<close> of the pending timers fire. The chart is
  plain data here, and no statement of the block throws past the inner handler.
\<close>

definition updateAll_try ::
  "coercion \<Rightarrow> network \<Rightarrow> nat \<Rightarrow> 'a form_state_scheme \<Rightarrow> dashboard \<Rightarrow> js_error + dashboard"
where
  "updateAll_try toNumber fetch k st d =
     (let d1 = animateTextUpdate RiskDiffVal [Str ''Analyzing...''] d;
          d2 = animateTextUpdate RecommendText
                 [Str ''<strong>Computing recommendations...</strong>''] d1;
          d3 = animateTextUpdate MetabText [Str ''Processing metabolic data...''] d2;
          d4 = run_due k d3;
          result = (case fetchFromAPI toNumber fetch st of
                      Inr r \<Rightarrow> r
                    | Inl apiError \<Rightarrow> computeRiskCurve st);
          d5 = d4\<lparr>chart_female := femaleCurve result, chart_male := maleCurve result\<rparr>;
          d6 = animateTextUpdate RiskDiffVal
                 [Num (diffPct result), Str ''% higher risk for women at ~'',
                  Num (Fin (dose st)), Str ''mg''] d5;
          d7 = animateTextUpdate RecommendText
                 ([Str ''<strong>''] @ rec_text (recommendation result) @ [Str ''</strong>'']) d6;
          d8 = animateTextUpdate MetabText (metab result) d7
      in Inr d8)"

definition updateAll ::
  "coercion \<Rightarrow> network \<Rightarrow> nat \<Rightarrow> 'a form_state_scheme \<Rightarrow> dashboard \<Rightarrow> dashboard"
where
  "updateAll toNumber fetch k st d =
     (case updateAll_try toNumber fetch k st d of
        Inr d' \<Rightarrow> d'
      | Inl error \<Rightarrow>
          animateTextUpdate MetabText [Str ''Metabolic analysis unavailable'']
            (animateTextUpdate RecommendText
               [Str ''<strong>Unable to generate recommendations</strong>'']
               (animateTextUpdate RiskDiffVal [Str ''Analysis failed: '', MessageOf error] d)))"

text \<open>
  The input events and their handlers: each stores the new value in the form state, and
  calls \<open>updateAll\<close>.
\<close>

datatype input_event =
    ClickMale
  | ClickFemale
  | AgeChange real
  | MedChange string
  | DoseInput real

definition setSex ::
  "coercion \<Rightarrow> network \<Rightarrow> nat \<Rightarrow> string \<Rightarrow> form_state \<times> dashboard \<Rightarrow> form_state \<times> dashboard"
where
  "setSex toNumber fetch k sx sd =
     (let st = (fst sd)\<lparr>sex := sx\<rparr>;
          d = snd sd;
          d1 = (if sx = ''male''
                then d\<lparr>sexM_classes := classList_add ''active'' (sexM_classes d),
                       sexF_classes := classList_remove ''active'' (sexF_classes d)\<rparr>
                else d\<lparr>sexF_classes := classList_add ''active'' (sexF_classes d),
                       sexM_classes := classList_remove ''active'' (sexM_classes d)\<rparr>)
      in (st, updateAll toNumber fetch k st d1))"

fun handle_event ::
  "coercion \<Rightarrow> network \<Rightarrow> nat \<Rightarrow> input_event \<Rightarrow> form_state \<times> dashboard \<Rightarrow> form_state \<times> dashboard"
where
  "handle_event toNumber fetch k ClickMale sd = setSex toNumber fetch k ''male'' sd"
| "handle_event toNumber fetch k ClickFemale sd = setSex toNumber fetch k ''female'' sd"
| "handle_event toNumber fetch k (AgeChange v) sd =
     (let st = (fst sd)\<lparr>age := v\<rparr> in (st, updateAll toNumber fetch k st (snd sd)))"
| "handle_event toNumber fetch k (MedChange v) sd =
     (let st = (fst sd)\<lparr>med := v\<rparr> in (st, updateAll toNumber fetch k st (snd sd)))"
| "handle_event toNumber fetch k (DoseInput v) sd =
     (let st = (fst sd)\<lparr>dose := v\<rparr>;
          d1 = (snd sd)\<lparr>doseVal := [Num (Fin v), Str '' mg'']\<rparr>
      in (st, updateAll toNumber fetch k st d1))"

text \<open>
  The state that counts as rendered from a result: the chart shows its two curves and the
  three texts show its summary.
\<close>

definition rendered :: "risk_result \<Rightarrow> real \<Rightarrow> dashboard \<Rightarrow> bool" where
  "rendered r ds d =
     (chart_female d = femaleCurve r \<and> chart_male d = maleCurve r \<and>
      innerHTML (riskDiffVal d) =
        [Num (diffPct r), Str ''% higher risk for women at ~'', Num (Fin ds), Str ''mg''] \<and>
      innerHTML (recommendText d) =
        [Str ''<strong>''] @ rec_text (recommendation r) @ [Str ''</strong>''] \<and>
      innerHTML (metabText d) = metab r \<and>
      timers d = [])"

text \<open>
  The spec's words for a response of unexpected shape: a JSON value with neither a
  top-level \<open>risk_probability\<close> field nor a nested \<open>prediction.risk_probability\<close> field.
\<close>

fun has_field :: "json \<Rightarrow> string \<Rightarrow> bool" where
  "has_field (JObj kvs) k = (map_of kvs k \<noteq> None)"
| "has_field v k = False"

fun field :: "json \<Rightarrow> string \<Rightarrow> json option" where
  "field (JObj kvs) k = map_of kvs k"
| "field v k = None"

definition unexpected_shape :: "json \<Rightarrow> bool" where
  "unexpected_shape j =
     (\<not> has_field j ''risk_probability'' \<and>
      (case field j ''prediction'' of
         None \<Rightarrow> True
       | Some p \<Rightarrow> \<not> has_field p ''risk_probability''))"

text \<open>
  The state of the page when the script starts: the form state of the source, the two
  chart datasets filled with zeros, and text elements whose content comes from the markup
  and is taken as empty.
\<close>

definition initial_state :: form_state where
  "initial_state = \<lparr>sex = ''male'', age = 35, med = ''sertraline'', dose = 50\<rparr>"

definition initial_dashboard :: dashboard where
  "initial_dashboard =
     \<lparr>riskDiffVal = \<lparr>innerHTML = [], opacity = [], transform = []\<rparr>,
      recommendText = \<lparr>innerHTML = [], opacity = [], transform = []\<rparr>,
      metabText = \<lparr>innerHTML = [], opacity = [], transform = []\<rparr>,
      chart_female = [Fin 0, Fin 0, Fin 0, Fin 0, Fin 0],
      chart_male = [Fin 0, Fin 0, Fin 0, Fin 0, Fin 0],
      sexM_classes = [], sexF_classes = [], doseVal = [], timers = []\<rparr>"

section \<open>The stat tiles of the landing page\<close>

text \<open>
  The page is a store of elements, each with its class list, the two inline styles the
  script writes, its bounding rectangle and the ripples appended to it. \<open>statEls\<close> and
  \<open>dots\<close> are the two lists of elements that \<open>querySelectorAll\<close> returned when the page
  was loaded. Timer callbacks set with \<open>setTimeout\<close> are kept as pending, with their delay.
\<close>

type_synonym node = nat

record ripple =
  ripple_size :: real
  ripple_left :: real
  ripple_top :: real

record elem =
  classList :: "string list"
  style_animation :: string
  style_position :: string
  rect_left :: real
  rect_top :: real
  rect_width :: real
  rect_height :: real
  children :: "ripple list"

record mouse_event =
  clientX :: real
  clientY :: real

datatype timer_action = RemoveRipple node ripple | ResetAnimation node

record page =
  elems :: "node \<Rightarrow> elem"
  pending :: "(nat \<times> timer_action) list"

definition update_elem :: "node \<Rightarrow> (elem \<Rightarrow> elem) \<Rightarrow> page \<Rightarrow> page" where
  "update_elem n f pg = pg\<lparr>elems := (elems pg)(n := f (elems pg n))\<rparr>"

definition remove_class :: "string \<Rightarrow> node \<Rightarrow> page \<Rightarrow> page" where
  "remove_class c n pg = update_elem n (\<lambda>e. e\<lparr>classList := classList_remove c (classList e)\<rparr>) pg"

definition add_class :: "string \<Rightarrow> node \<Rightarrow> page \<Rightarrow> page" where
  "add_class c n pg = update_elem n (\<lambda>e. e\<lparr>classList := classList_add c (classList e)\<rparr>) pg"

definition has_class :: "string \<Rightarrow> node \<Rightarrow> page \<Rightarrow> bool" where
  "has_class c n pg = (c \<in> set (classList (elems pg n)))"

definition setTimeout :: "timer_action \<Rightarrow> nat \<Rightarrow> page \<Rightarrow> page" where
  "setTimeout a ms pg = pg\<lparr>pending := pending pg @ [(ms, a)]\<rparr>"

definition createRipple :: "mouse_event \<Rightarrow> node \<Rightarrow> page \<Rightarrow> page" where
  "createRipple event element pg =
     (let e = elems pg element;
          size = max (rect_width e) (rect_height e);
          x = clientX event - rect_left e - size / 2;
          y = clientY event - rect_top e - size / 2;
          r = \<lparr>ripple_size = size, ripple_left = x, ripple_top = y\<rparr>;
          pg1 = update_elem element (\<lambda>e. e\<lparr>style_position := ''relative''\<rparr>) pg;
          pg2 = update_elem element (\<lambda>e. e\<lparr>children := children e @ [r]\<rparr>) pg1
      in setTimeout (RemoveRipple element r) 600 pg2)"

text \<open>
  The click handler that \<open>statEls.forEach((s, i) => ...)\<close> registers for the tile \<open>s\<close> at
  index \<open>i\<close>. \<open>dots[i]\<close> is \<open>undefined\<close> when the index is past the end of \<open>dots\<close>.
\<close>

definition stat_click :: "node list \<Rightarrow> node list \<Rightarrow> node \<Rightarrow> nat \<Rightarrow> mouse_event \<Rightarrow> page \<Rightarrow> page" where
  "stat_click statEls dots s i e pg =
     (let pg1 = fold (remove_class ''active'') statEls pg;
          pg2 = fold (remove_class ''active'') dots pg1;
          pg3 = add_class ''active'' s pg2;
          pg4 = (if i < length dots then add_class ''active'' (dots ! i) pg3 else pg3);
          pg5 = createRipple e s pg4;
          pg6 = update_elem s (\<lambda>e. e\<lparr>style_animation := ''statClick 0.6s ease''\<rparr>) pg5
      in setTimeout (ResetAnimation s) 600 pg6)"

definition stat_handlers :: "node list \<Rightarrow> node list \<Rightarrow> (mouse_event \<Rightarrow> page \<Rightarrow> page) list" where
  "stat_handlers statEls dots = map (\<lambda>(i, s). stat_click statEls dots s i) (enumerate 0 statEls)"

text \<open>
  A page with three stat tiles (elements 0, 1, 2) and three indicator dots (elements 3, 4,
  5), the first tile and the first dot active.
\<close>

definition example_page :: page where
  "example_page =
     \<lparr>elems = (\<lambda>n. \<lparr>classList = (if n = 0 \<or> n = 3 then [''stat'', ''active''] else [''stat'']),
                      style_animation = [], style_position = [],
                      rect_left = 0, rect_top = 0, rect_width = 120, rect_height = 80,
                      children = []\<rparr>),
      pending = []\<rparr>"

section \<open>Facts about the arithmetic\<close>

lemma Math_min_Fin: "Math_min (Fin a) (Fin b) = Fin (min a b)"
  by (simp add: min_def)

lemma Math_max_Fin: "Math_max (Fin a) (Fin b) = Fin (max a b)"
  by (simp add: max_def)

lemma js_le_Fin_0D: "js_le (Fin 0) x \<Longrightarrow> x = PInf \<or> (\<exists>f. x = Fin f \<and> 0 \<le> f)"
  by (cases x) simp_all

text \<open>Rounding to one decimal and clamping at 95, on the reals.\<close>

lemma round_clamp_mono:
  fixes x y :: real
  assumes "x \<le> y"
  shows "min 95 (of_int \<lfloor>x * 10 + 1 / 2\<rfloor> / 10) \<le> min (95::real) (of_int \<lfloor>y * 10 + 1 / 2\<rfloor> / 10)"
proof -
  have "\<lfloor>x * 10 + 1 / 2\<rfloor> \<le> \<lfloor>y * 10 + 1 / 2\<rfloor>"
    using assms by (intro floor_mono) simp
  then have "(of_int \<lfloor>x * 10 + 1 / 2\<rfloor> :: real) / 10 \<le> of_int \<lfloor>y * 10 + 1 / 2\<rfloor> / 10"
    by simp
  then show ?thesis by (intro min.mono) simp_all
qed

lemma round_clamp_range:
  fixes x :: real
  assumes "0 \<le> x"
  shows "0 \<le> min (95::real) (of_int \<lfloor>x * 10 + 1 / 2\<rfloor> / 10)"
    and "min (95::real) (of_int \<lfloor>x * 10 + 1 / 2\<rfloor> / 10) \<le> 95"
proof -
  have "0 \<le> \<lfloor>x * 10 + 1 / 2\<rfloor>" using assms by simp
  then show "0 \<le> min (95::real) (of_int \<lfloor>x * 10 + 1 / 2\<rfloor> / 10)" by simp
  show "min (95::real) (of_int \<lfloor>x * 10 + 1 / 2\<rfloor> / 10) \<le> 95" by simp
qed

lemma round_clamp_strict:
  fixes x y :: real
  assumes "y + 1 / 10 \<le> x" "x \<le> 0"
  shows "min 95 (of_int \<lfloor>y * 10 + 1 / 2\<rfloor> / 10) + 1 / 10 \<le> min (95::real) (of_int \<lfloor>x * 10 + 1 / 2\<rfloor> / 10)"
    and "min (95::real) (of_int \<lfloor>x * 10 + 1 / 2\<rfloor> / 10) \<le> 0"
proof -
  have "of_int \<lfloor>y * 10 + 1 / 2\<rfloor> \<le> y * 10 + 1 / 2" by (rule of_int_floor_le)
  moreover have "(of_int (\<lfloor>y * 10 + 1 / 2\<rfloor> + 1) :: real) = of_int \<lfloor>y * 10 + 1 / 2\<rfloor> + 1"
    by simp
  ultimately have "of_int (\<lfloor>y * 10 + 1 / 2\<rfloor> + 1) \<le> x * 10 + 1 / 2"
    using assms(1) by linarith
  then have step: "\<lfloor>y * 10 + 1 / 2\<rfloor> + 1 \<le> \<lfloor>x * 10 + 1 / 2\<rfloor>" by (simp only: le_floor_iff)
  have "\<lfloor>x * 10 + 1 / 2\<rfloor> \<le> \<lfloor>1 / 2 :: real\<rfloor>" using assms(2) by (intro floor_mono) simp
  then have x0: "\<lfloor>x * 10 + 1 / 2\<rfloor> \<le> 0" by simp
  then have y0: "\<lfloor>y * 10 + 1 / 2\<rfloor> \<le> 0" using step by linarith
  have mx: "min (95::real) (of_int \<lfloor>x * 10 + 1 / 2\<rfloor> / 10) = of_int \<lfloor>x * 10 + 1 / 2\<rfloor> / 10"
    using x0 by (simp add: min_def)
  have my: "min (95::real) (of_int \<lfloor>y * 10 + 1 / 2\<rfloor> / 10) = of_int \<lfloor>y * 10 + 1 / 2\<rfloor> / 10"
    using y0 by (simp add: min_def)
  have "(of_int \<lfloor>y * 10 + 1 / 2\<rfloor> :: real) + 1 \<le> of_int \<lfloor>x * 10 + 1 / 2\<rfloor>"
    using step by linarith
  then show "min 95 (of_int \<lfloor>y * 10 + 1 / 2\<rfloor> / 10) + 1 / 10 \<le> min (95::real) (of_int \<lfloor>x * 10 + 1 / 2\<rfloor> / 10)"
    unfolding mx my by (simp add: field_simps)
  show "min (95::real) (of_int \<lfloor>x * 10 + 1 / 2\<rfloor> / 10) \<le> 0"
    unfolding mx using x0 by simp
qed

lemma round_clamp_value:
  fixes x :: real
  assumes "of_int n \<le> x * 10 + 1 / 2" and "x * 10 + 1 / 2 < of_int n + 1" and "n \<le> 950"
  shows "min 95 (of_int \<lfloor>x * 10 + 1 / 2\<rfloor> / 10) = (of_int n / 10 :: real)"
proof -
  have "\<lfloor>x * 10 + 1 / 2\<rfloor> = n" using assms(1,2) by (simp add: floor_eq_iff)
  moreover have "(of_int n :: real) \<le> 950" using assms(3) by linarith
  ultimately show ?thesis by (simp add: min_def)
qed

text \<open>
  Bounds on the exponential from its Maclaurin expansion, and the two logarithms that the
  examples need.
\<close>

lemma exp_taylor_lower:
  fixes x :: real
  assumes "0 \<le> x"
  shows "(\<Sum>m<n. x ^ m / fact m) \<le> exp x"
proof -
  obtain t where t: "exp x = (\<Sum>m<n. x ^ m / fact m) + (exp t / fact n) * x ^ n"
    using Maclaurin_exp_le [of x n] by blast
  have "0 \<le> (exp t / fact n) * x ^ n" using assms by simp
  with t show ?thesis by linarith
qed

lemma exp_quarter_le: "exp (1/4 :: real) \<le> 12841 / 10000"
proof -
  obtain t :: real where t: "\<bar>t\<bar> \<le> \<bar>1/4\<bar>"
    and e: "exp (1/4 :: real) = (\<Sum>m<4. (1/4) ^ m / fact m) + (exp t / fact 4) * (1/4) ^ 4"
    using Maclaurin_exp_le [of "1/4" 4] by blast
  have "exp t \<le> exp (1/4)" using t by simp
  also have "\<dots> \<le> 1 + 1/4 + (1/4)\<^sup>2" by (rule exp_bound) simp_all
  finally have "exp t \<le> 21/16" by (simp add: power2_eq_square)
  then have "(exp t / fact 4) * (1/4) ^ 4 \<le> (21/16) / 24 / 256"
    by (simp add: fact_numeral power_divide)
  moreover have "(\<Sum>m<4. (1/4 :: real) ^ m / fact m) = 1 + 1/4 + 1/32 + 1/384"
    by (simp add: lessThan_nat_numeral lessThan_Suc fact_numeral power_divide)
  ultimately show ?thesis using e by simp
qed

lemma ln_7_2_lower: "5 / 4 \<le> ln (7 / 2 :: real)"
proof -
  have "exp (5/4 :: real) = exp (1/4) ^ 5"
    using exp_of_nat_mult [of 5 "1/4 :: real"] by simp
  also have "\<dots> \<le> (12841 / 10000) ^ 5"
    by (rule power_mono [OF exp_quarter_le]) simp
  also have "\<dots> \<le> 7 / 2" by (simp add: power_divide)
  finally have "exp (5/4 :: real) \<le> 7 / 2" .
  then have "ln (exp (5/4 :: real)) \<le> ln (7 / 2)"
    by (subst ln_le_cancel_iff) simp_all
  then show ?thesis by (simp only: ln_exp)
qed

lemma ln_7_2_upper: "ln (7 / 2 :: real) \<le> 63 / 50"
proof -
  have "(7/2 :: real) \<le> (\<Sum>m<6. (63/50) ^ m / fact m)"
    by (simp add: lessThan_nat_numeral lessThan_Suc fact_numeral power_divide)
  also have "\<dots> \<le> exp (63/50)" by (rule exp_taylor_lower) simp
  finally have "(7/2 :: real) \<le> exp (63/50)" .
  then have "ln (7 / 2 :: real) \<le> ln (exp (63/50))"
    by (subst ln_le_cancel_iff) simp_all
  then show ?thesis by (simp only: ln_exp)
qed

lemma ln_200_lower: "4 \<le> ln (200 :: real)"
proof -
  have "exp (4 :: real) = exp 1 ^ 4"
    using exp_of_nat_mult [of 4 "1 :: real"] by simp
  also have "\<dots> \<le> 3 ^ 4" by (rule power_mono [OF exp_le]) simp
  also have "\<dots> \<le> 200" by simp
  finally have "exp (4 :: real) \<le> 200" .
  then have "ln (exp (4 :: real)) \<le> ln 200"
    by (subst ln_le_cancel_iff) simp_all
  then show ?thesis by (simp only: ln_exp)
qed

lemma ln_11_10_lower: "229 / 2500 \<le> ln (11 / 10 :: real)"
proof -
  have "exp (229 / 2500 :: real) \<le> 1 + 229 / 2500 + (229 / 2500)\<^sup>2"
    by (rule exp_bound) simp_all
  also have "\<dots> \<le> 11 / 10" by (simp add: power2_eq_square)
  finally have "exp (229 / 2500 :: real) \<le> 11 / 10" .
  then have "ln (exp (229 / 2500 :: real)) \<le> ln (11 / 10)"
    by (subst ln_le_cancel_iff) simp_all
  then show ?thesis by (simp only: ln_exp)
qed

lemma ln_11_10_upper: "ln (11 / 10 :: real) \<le> 1 / 10"
  using ln_add_one_self_le_self [of "1 / 10 :: real"] by simp

section \<open>The factors and the two curves\<close>

lemma map_enumerate_index:
  "map (\<lambda>(i, t). f i) (enumerate n xs) = map f [n..<n + length xs]"
  by (induction xs arbitrary: n) (simp_all add: upt_rec)

lemma length_time_points: "length time_points = 5"
  by (simp add: time_points_def)

lemma femaleCurve_eq:
  "femaleCurve (computeRiskCurve st) =
     map (curve_point (js_mul (medBase (med st)) (Fin 100)) (sexMult (sex st))
            (ageMult (age st)) (doseFactor (dose st))) [0..<5]"
  by (simp add: computeRiskCurve_def Let_def map_enumerate_index length_time_points)

lemma maleCurve_eq:
  "maleCurve (computeRiskCurve st) =
     map (curve_point (js_mul (medBase (med st)) (Fin 100)) (Fin 1.0)
            (ageMult (age st)) (doseFactor (dose st))) [0..<5]"
  by (simp add: computeRiskCurve_def Let_def map_enumerate_index length_time_points)

lemma femaleCurve_nth:
  assumes "i < 5"
  shows "femaleCurve (computeRiskCurve st) ! i =
     curve_point (js_mul (medBase (med st)) (Fin 100)) (sexMult (sex st))
            (ageMult (age st)) (doseFactor (dose st)) i"
  using assms by (simp add: femaleCurve_eq)

lemma maleCurve_nth:
  assumes "i < 5"
  shows "maleCurve (computeRiskCurve st) ! i =
     curve_point (js_mul (medBase (med st)) (Fin 100)) (Fin 1.0)
            (ageMult (age st)) (doseFactor (dose st)) i"
  using assms by (simp add: maleCurve_eq)

lemma curve_point_Fin:
  "curve_point (Fin b) (Fin s) (Fin a) (Fin d) i =
     Fin (min 95 (of_int \<lfloor>b * (1 + real i * 0.06) * s * a * d * 10 + 1 / 2\<rfloor> / 10))"
  by (simp add: curve_point_def Let_def Math_min_Fin)

lemma ageMult_Fin: "ageMult a = Fin (1 + max 0 (a - 30) / 100)"
  by (simp add: ageMult_def js_sub_def Math_max_Fin)

lemma doseFactor_Fin: "- 20 < d \<Longrightarrow> doseFactor d = Fin (1 + ln (1 + d / 20) / 3)"
  by (simp add: doseFactor_def)

lemma medBase_pos:
  assumes "m \<notin> set inherited_keys"
  shows "\<exists>b. medBase m = Fin b \<and> 0 < b"
proof -
  let ?b = "case map_of medTable m of None \<Rightarrow> 0.06 | Some v \<Rightarrow> if v = 0 then 0.06 else (v::real)"
  have "medBase m = Fin ?b" using assms by (simp add: medBase_def split: option.split)
  moreover have "0 < ?b" by (simp add: medTable_def)
  ultimately show ?thesis by blast
qed

lemma medBase_sertraline: "medBase ''sertraline'' = Fin 0.12"
  by (simp add: medBase_def medTable_def)

lemma sexMult_pos: "\<exists>s. sexMult x = Fin s \<and> 1 \<le> s"
proof -
  let ?s = "if x = ''female'' then 1.26 else (1.0::real)"
  have "sexMult x = Fin ?s" by (simp add: sexMult_def)
  moreover have "1 \<le> ?s" by simp
  ultimately show ?thesis by blast
qed

lemma ageMult_pos: "\<exists>a. ageMult x = Fin a \<and> 1 \<le> a"
proof -
  have "(1::real) \<le> 1 + max 0 (x - 30) / 100" by simp
  then show ?thesis using ageMult_Fin by blast
qed

lemma doseFactor_nonneg_dose:
  assumes "0 \<le> d"
  shows "\<exists>f. doseFactor d = Fin f \<and> 1 \<le> f"
proof -
  have "0 \<le> ln (1 + d / 20)" using assms by simp
  then have "(1::real) \<le> 1 + ln (1 + d / 20) / 3" by simp
  moreover have "doseFactor d = Fin (1 + ln (1 + d / 20) / 3)"
    using assms by (intro doseFactor_Fin) simp
  ultimately show ?thesis by blast
qed

lemma doseFactor_not_PInf: "doseFactor d \<noteq> PInf"
  by (simp add: doseFactor_def)

lemma doseFactor_nonnegD:
  assumes "js_le (Fin 0) (doseFactor d)"
  shows "\<exists>f. doseFactor d = Fin f \<and> 0 \<le> f"
  using js_le_Fin_0D [OF assms] doseFactor_not_PInf by blast

lemma doseFactor_low: "\<exists>f. doseFactor (- 19.9) = Fin f \<and> f \<le> - 1 / 3"
proof -
  have "ln (1 / 200 :: real) = - ln 200" by (simp add: ln_div)
  then have "1 + ln (1 + (- 19.9) / 20 :: real) / 3 \<le> - 1 / 3"
    using ln_200_lower by simp
  moreover have "doseFactor (- 19.9) = Fin (1 + ln (1 + (- 19.9) / 20) / 3)"
    by (intro doseFactor_Fin) simp
  ultimately show ?thesis by blast
qed

lemma example_dose_factor_nonneg: "js_le (Fin 0) (doseFactor 50)"
proof -
  obtain f where "doseFactor 50 = Fin f" "1 \<le> f"
    using doseFactor_nonneg_dose [of 50] by auto
  then show ?thesis by simp
qed

lemma base_nonneg:
  assumes "m \<notin> set inherited_keys"
  shows "\<exists>b. js_mul (medBase m) (Fin 100) = Fin b \<and> 0 \<le> b"
proof -
  obtain c where "medBase m = Fin c" "0 < c" using medBase_pos [OF assms] by blast
  then have "js_mul (medBase m) (Fin 100) = Fin (c * 100) \<and> 0 \<le> c * 100" by simp
  then show ?thesis by blast
qed

lemma raw_nonneg:
  fixes b s a d :: real
  assumes "0 \<le> b" "0 \<le> s" "0 \<le> a" "0 \<le> d"
  shows "0 \<le> b * (1 + real i * 0.06) * s * a * d"
  using assms by simp

lemma raw_mono_index:
  fixes b s a d :: real
  assumes "0 \<le> b" "0 \<le> s" "0 \<le> a" "0 \<le> d" "i \<le> j"
  shows "b * (1 + real i * 0.06) * s * a * d \<le> b * (1 + real j * 0.06) * s * a * d"
proof -
  have "1 + real i * 0.06 \<le> 1 + real j * 0.06" using assms(5) by simp
  then show ?thesis
    using assms(1-4) by (intro mult_right_mono mult_left_mono) simp_all
qed

lemma raw_mono_sex:
  fixes b s s' a d :: real
  assumes "0 \<le> b" "0 \<le> a" "0 \<le> d" "s \<le> s'"
  shows "b * (1 + real i * 0.06) * s * a * d \<le> b * (1 + real i * 0.06) * s' * a * d"
  using assms by (intro mult_right_mono mult_left_mono) simp_all

lemma curve_point_range:
  fixes b s a d :: real
  assumes "0 \<le> b" "0 \<le> s" "0 \<le> a" "0 \<le> d"
  shows "js_le (Fin 0) (curve_point (Fin b) (Fin s) (Fin a) (Fin d) i) \<and>
         js_le (curve_point (Fin b) (Fin s) (Fin a) (Fin d) i) (Fin 95)"
  unfolding curve_point_Fin js_le.simps
  using round_clamp_range [OF raw_nonneg [OF assms]] by blast

lemma curve_point_mono_index:
  fixes b s a d :: real
  assumes "0 \<le> b" "0 \<le> s" "0 \<le> a" "0 \<le> d" "i \<le> j"
  shows "js_le (curve_point (Fin b) (Fin s) (Fin a) (Fin d) i)
               (curve_point (Fin b) (Fin s) (Fin a) (Fin d) j)"
  unfolding curve_point_Fin js_le.simps
  by (rule round_clamp_mono [OF raw_mono_index [OF assms]])

lemma curve_point_mono_sex:
  fixes b s s' a d :: real
  assumes "0 \<le> b" "0 \<le> a" "0 \<le> d" "s \<le> s'"
  shows "js_le (curve_point (Fin b) (Fin s) (Fin a) (Fin d) i)
               (curve_point (Fin b) (Fin s') (Fin a) (Fin d) i)"
  unfolding curve_point_Fin js_le.simps
  by (rule round_clamp_mono [OF raw_mono_sex [OF assms]])

lemma diffPct_eq:
  "diffPct (computeRiskCurve st) =
     Math_round (js_mul (js_div (js_sub (femaleCurve (computeRiskCurve st) ! 2)
                                        (maleCurve (computeRiskCurve st) ! 2))
                                (Math_max (maleCurve (computeRiskCurve st) ! 2) (Fin 1))) (Fin 100))"
  by (simp add: computeRiskCurve_def Let_def)

lemma diffPct_Fin:
  "Math_round (js_mul (js_div (js_sub (Fin F) (Fin M)) (Math_max (Fin M) (Fin 1))) (Fin 100)) =
     Fin (of_int \<lfloor>(F - M) / max M 1 * 100 + 1 / 2\<rfloor>)"
  by (simp add: js_sub_def Math_max_Fin)

lemma example_male_raw:
  "maleCurve (computeRiskCurve \<lparr>sex = ''male'', age = 35, med = ''sertraline'', dose = 50\<rparr>) ! 0 =
     Fin (min 95 (of_int \<lfloor>(12 * 1.0 * 1.05 * (1 + ln (1 + 50 / 20) / 3) * 10 :: real) + 1 / 2\<rfloor> / 10))"
  by (simp add: maleCurve_nth medBase_sertraline ageMult_Fin doseFactor_Fin curve_point_Fin)

lemma example_floor_code:
  "\<lfloor>(12 * 1.0 * 1.05 * (1 + ln (1 + 50 / 20) / 3) * 10 :: real) + 1 / 2\<rfloor> = 179"
proof -
  have "(179::real) \<le> 12 * 1.0 * 1.05 * (1 + ln (7 / 2) / 3) * 10 + 1 / 2"
    using ln_7_2_lower by (simp add: field_simps)
  moreover have "12 * 1.0 * 1.05 * (1 + ln (7 / 2) / 3) * 10 + 1 / 2 < (180::real)"
    using ln_7_2_upper by (simp add: field_simps)
  ultimately show ?thesis by (simp add: floor_eq_iff)
qed

lemma example_floor_spec:
  "\<lfloor>(12 * 1.0 * 1.0 * (1 + ln (1 + 50 / 20) / 3) * 10 :: real) + 1 / 2\<rfloor> = 170"
proof -
  have "(170::real) \<le> 12 * 1.0 * 1.0 * (1 + ln (7 / 2) / 3) * 10 + 1 / 2"
    using ln_7_2_lower by (simp add: field_simps)
  moreover have "12 * 1.0 * 1.0 * (1 + ln (7 / 2) / 3) * 10 + 1 / 2 < (171::real)"
    using ln_7_2_upper by (simp add: field_simps)
  ultimately show ?thesis by (simp add: floor_eq_iff)
qed

text \<open>For a dose above 2.5 the reduced dose is strictly below the dose.\<close>

lemma reduced_dose_below:
  fixes d :: real
  assumes "5 / 2 < d"
  shows "max 1 (of_int (round (d * 0.8))) < d"
proof -
  have "of_int (round (d * 0.8)) \<le> d * 0.8 + 1 / 2"
    unfolding round_def by (rule of_int_floor_le)
  then have "of_int (round (d * 0.8)) < d" using assms by (simp add: field_simps)
  then show ?thesis using assms by simp
qed

text \<open>Two worked inputs for the recommendation: a low dose and a usual one.\<close>

lemma doseFactor_two: "\<exists>f. doseFactor 2 = Fin f \<and> 7729 / 7500 \<le> f \<and> f \<le> 31 / 30"
proof -
  have "doseFactor 2 = Fin (1 + ln (11 / 10) / 3)" by (simp add: doseFactor_def)
  moreover have "7729 / 7500 \<le> 1 + ln (11 / 10 :: real) / 3"
    using ln_11_10_lower by (simp add: field_simps)
  moreover have "1 + ln (11 / 10 :: real) / 3 \<le> 31 / 30"
    using ln_11_10_upper by (simp add: field_simps)
  ultimately show ?thesis by blast
qed

lemma doseFactor_fifty: "\<exists>f. doseFactor 50 = Fin f \<and> 17 / 12 \<le> f \<and> f \<le> 71 / 50"
proof -
  have "doseFactor 50 = Fin (1 + ln (7 / 2) / 3)" by (simp add: doseFactor_def)
  moreover have "17 / 12 \<le> 1 + ln (7 / 2 :: real) / 3"
    using ln_7_2_lower by (simp add: field_simps)
  moreover have "1 + ln (7 / 2 :: real) / 3 \<le> 71 / 50"
    using ln_7_2_upper by (simp add: field_simps)
  ultimately show ?thesis by blast
qed

lemma example_low_dose_curves:
  "maleCurve (computeRiskCurve \<lparr>sex = ''female'', age = 30, med = ''sertraline'', dose = 2\<rparr>) ! 2 = Fin 13.9 \<and>
   femaleCurve (computeRiskCurve \<lparr>sex = ''female'', age = 30, med = ''sertraline'', dose = 2\<rparr>) ! 2 = Fin 17.5"
proof -
  obtain f where f: "doseFactor 2 = Fin f" "7729 / 7500 \<le> f" "f \<le> 31 / 30"
    using doseFactor_two by blast
  have m: "min 95 (of_int \<lfloor>12 * (1 + real 2 * 0.06) * 1.0 * 1 * f * 10 + 1 / 2\<rfloor> / 10) = (of_int 139 / 10 :: real)"
    using f(2,3) by (intro round_clamp_value) (simp_all add: field_simps)
  have w: "min 95 (of_int \<lfloor>12 * (1 + real 2 * 0.06) * 1.26 * 1 * f * 10 + 1 / 2\<rfloor> / 10) = (of_int 175 / 10 :: real)"
    using f(2,3) by (intro round_clamp_value) (simp_all add: field_simps)
  have "curve_point (Fin 12) (Fin 1.0) (Fin 1) (Fin f) 2 = Fin 13.9"
    unfolding curve_point_Fin m by simp
  moreover have "curve_point (Fin 12) (Fin 1.26) (Fin 1) (Fin f) 2 = Fin 17.5"
    unfolding curve_point_Fin w by simp
  ultimately show ?thesis
    by (simp add: maleCurve_nth femaleCurve_nth medBase_sertraline ageMult_Fin f(1) sexMult_def)
qed

lemma example_low_dose_diffPct:
  "diffPct (computeRiskCurve \<lparr>sex = ''female'', age = 30, med = ''sertraline'', dose = 2\<rparr>) = Fin 26"
  unfolding diffPct_eq using example_low_dose_curves
  by (simp add: js_sub_def Math_max_Fin)

lemma example_usual_dose_curves:
  "maleCurve (computeRiskCurve \<lparr>sex = ''female'', age = 35, med = ''sertraline'', dose = 50\<rparr>) ! 2 = Fin 20 \<and>
   femaleCurve (computeRiskCurve \<lparr>sex = ''female'', age = 35, med = ''sertraline'', dose = 50\<rparr>) ! 2 = Fin 25.2"
proof -
  obtain f where f: "doseFactor 50 = Fin f" "17 / 12 \<le> f" "f \<le> 71 / 50"
    using doseFactor_fifty by blast
  have m: "min 95 (of_int \<lfloor>12 * (1 + real 2 * 0.06) * 1.0 * 1.05 * f * 10 + 1 / 2\<rfloor> / 10) = (of_int 200 / 10 :: real)"
    using f(2,3) by (intro round_clamp_value) (simp_all add: field_simps)
  have w: "min 95 (of_int \<lfloor>12 * (1 + real 2 * 0.06) * 1.26 * 1.05 * f * 10 + 1 / 2\<rfloor> / 10) = (of_int 252 / 10 :: real)"
    using f(2,3) by (intro round_clamp_value) (simp_all add: field_simps)
  have "curve_point (Fin 12) (Fin 1.0) (Fin 1.05) (Fin f) 2 = Fin 20"
    unfolding curve_point_Fin m by simp
  moreover have "curve_point (Fin 12) (Fin 1.26) (Fin 1.05) (Fin f) 2 = Fin 25.2"
    unfolding curve_point_Fin w by simp
  ultimately show ?thesis
    by (simp add: maleCurve_nth femaleCurve_nth medBase_sertraline ageMult_Fin f(1) sexMult_def)
qed

lemma example_usual_dose_diffPct:
  "diffPct (computeRiskCurve \<lparr>sex = ''female'', age = 35, med = ''sertraline'', dose = 50\<rparr>) = Fin 26"
  unfolding diffPct_eq using example_usual_dose_curves
  by (simp add: js_sub_def Math_max_Fin)

text \<open>Which recommendation is returned, for every input.\<close>

lemma recommendation_branch:
  "recommendation (computeRiskCurve st) =
     (if sex st = ''female'' \<and> js_gt (diffPct (computeRiskCurve st)) (Fin 15)
      then \<lparr>rec_text = [Str ''Recommended: '',
                        Num (Fin (max 1 (of_int (round (dose st * 0.8))))),
                        Str '' mg (optimized for female metabolism)''],
            rec_dose = Some (Fin (max 1 (of_int (round (dose st * 0.8)))))\<rparr>
      else \<lparr>rec_text = [Str ''Recommended: '', Num (Fin (dose st)), Str '' mg (no change)''],
            rec_dose = Some (Fin (dose st))\<rparr>)"
proof (cases "sex st = ''female'' \<and> js_gt (diffPct (computeRiskCurve st)) (Fin 15)")
  case True
  then show ?thesis
    by (simp add: computeRiskCurve_def Let_def Math_max_Fin round_def)
next
  case False
  then show ?thesis
    by (simp add: computeRiskCurve_def Let_def Math_max_Fin round_def)
qed

section \<open>The dashboard controller: timers and the fallback\<close>

lemma update_element_frame:
  "timers (update_element el f d) = timers d"
  "chart_female (update_element el f d) = chart_female d"
  "chart_male (update_element el f d) = chart_male d"
  by (cases el; simp)+

lemma animateTextUpdate_frame:
  "timers (animateTextUpdate el c d) = timers d @ [(el, c)]"
  "chart_female (animateTextUpdate el c d) = chart_female d"
  "chart_male (animateTextUpdate el c d) = chart_male d"
  by (simp_all add: animateTextUpdate_def Let_def update_element_frame)

lemma timer_callback_frame:
  "timers (timer_callback t d) = timers d"
  "chart_female (timer_callback t d) = chart_female d"
  "chart_male (timer_callback t d) = chart_male d"
  by (simp_all add: timer_callback_def update_element_frame)

lemma fold_timer_callback_frame:
  "timers (fold timer_callback ts d) = timers d \<and>
   chart_female (fold timer_callback ts d) = chart_female d \<and>
   chart_male (fold timer_callback ts d) = chart_male d"
  by (induction ts arbitrary: d) (simp_all add: timer_callback_frame)

lemma run_due_frame:
  "timers (run_due n d) = drop n (timers d)"
  "chart_female (run_due n d) = chart_female d"
  "chart_male (run_due n d) = chart_male d"
  by (simp_all add: run_due_def fold_timer_callback_frame)

lemma last_three_callbacks:
  "innerHTML (riskDiffVal (fold timer_callback
      (ts @ [(RiskDiffVal, a), (RecommendText, b), (MetabText, c)]) d)) = a \<and>
   innerHTML (recommendText (fold timer_callback
      (ts @ [(RiskDiffVal, a), (RecommendText, b), (MetabText, c)]) d)) = b \<and>
   innerHTML (metabText (fold timer_callback
      (ts @ [(RiskDiffVal, a), (RecommendText, b), (MetabText, c)]) d)) = c"
  by (simp add: timer_callback_def)

lemma run_timers_eq: "run_timers d = (fold timer_callback (timers d) d)\<lparr>timers := []\<rparr>"
  by (simp add: run_timers_def run_due_def)

lemma updateAll_try_fallback:
  assumes "fetchFromAPI toNumber fetch st = Inl e"
  shows "\<exists>d'. updateAll_try toNumber fetch k st d = Inr d' \<and>
      chart_female d' = femaleCurve (computeRiskCurve st) \<and>
      chart_male d' = maleCurve (computeRiskCurve st) \<and>
      (\<exists>ts. timers d' = ts @
         [(RiskDiffVal, [Num (diffPct (computeRiskCurve st)), Str ''% higher risk for women at ~'',
                         Num (Fin (dose st)), Str ''mg'']),
          (RecommendText, [Str ''<strong>''] @ rec_text (recommendation (computeRiskCurve st)) @ [Str ''</strong>'']),
          (MetabText, metab (computeRiskCurve st))])"
  using assms
  by (simp add: updateAll_try_def Let_def animateTextUpdate_frame run_due_frame)

lemma rendered_after_timers:
  assumes "chart_female d = femaleCurve r" "chart_male d = maleCurve r"
    and "timers d = ts @
         [(RiskDiffVal, [Num (diffPct r), Str ''% higher risk for women at ~'', Num (Fin ds), Str ''mg'']),
          (RecommendText, [Str ''<strong>''] @ rec_text (recommendation r) @ [Str ''</strong>'']),
          (MetabText, metab r)]"
  shows "rendered r ds (run_timers d)"
proof -
  have texts:
    "innerHTML (riskDiffVal (fold timer_callback (timers d) d)) =
       [Num (diffPct r), Str ''% higher risk for women at ~'', Num (Fin ds), Str ''mg''] \<and>
     innerHTML (recommendText (fold timer_callback (timers d) d)) =
       [Str ''<strong>''] @ rec_text (recommendation r) @ [Str ''</strong>''] \<and>
     innerHTML (metabText (fold timer_callback (timers d) d)) = metab r"
    unfolding assms(3) by (rule last_three_callbacks)
  have chart:
    "chart_female (fold timer_callback (timers d) d) = femaleCurve r \<and>
     chart_male (fold timer_callback (timers d) d) = maleCurve r"
    using fold_timer_callback_frame [of "timers d" d] assms(1,2) by simp
  show ?thesis
    unfolding rendered_def run_timers_eq using texts chart by simp
qed

lemma updateAll_fallback:
  assumes "fetchFromAPI toNumber fetch st = Inl e"
  shows "rendered (computeRiskCurve st) (dose st) (run_timers (updateAll toNumber fetch k st d))"
proof -
  obtain d' ts where d': "updateAll_try toNumber fetch k st d = Inr d'"
    "chart_female d' = femaleCurve (computeRiskCurve st)"
    "chart_male d' = maleCurve (computeRiskCurve st)"
    "timers d' = ts @
         [(RiskDiffVal, [Num (diffPct (computeRiskCurve st)), Str ''% higher risk for women at ~'',
                         Num (Fin (dose st)), Str ''mg'']),
          (RecommendText, [Str ''<strong>''] @ rec_text (recommendation (computeRiskCurve st)) @ [Str ''</strong>'']),
          (MetabText, metab (computeRiskCurve st))]"
    using updateAll_try_fallback [OF assms, of k d] by blast
  have "updateAll toNumber fetch k st d = d'" by (simp add: updateAll_def d'(1))
  then show ?thesis using rendered_after_timers [OF d'(2,3,4)] by simp
qed

text \<open>The ways in which the request fails before any conversion.\<close>

lemma fetchFromAPI_rejected:
  "fetch (apiData st) = Inl e \<Longrightarrow> fetchFromAPI toNumber fetch st = Inl e"
  by (simp add: fetchFromAPI_def)

lemma fetchFromAPI_not_ok:
  "fetch (apiData st) = Inr resp \<Longrightarrow> \<not> ok resp \<Longrightarrow>
     fetchFromAPI toNumber fetch st =
       Inl (Error [Str ''API request failed: '', Num (Fin (real (status resp)))])"
  by (simp add: fetchFromAPI_def)

lemma fetchFromAPI_bad_body:
  "fetch (apiData st) = Inr resp \<Longrightarrow> ok resp \<Longrightarrow> body resp = Inl e \<Longrightarrow>
     fetchFromAPI toNumber fetch st = Inl e"
  by (simp add: fetchFromAPI_def)

lemma fetchFromAPI_error_field:
  "fetch (apiData st) = Inr resp \<Longrightarrow> ok resp \<Longrightarrow> body resp = Inr j \<Longrightarrow>
     get_prop j ''error'' = Inr err \<Longrightarrow> truthy err \<Longrightarrow>
     fetchFromAPI toNumber fetch st = Inl (Error [Val err])"
  by (simp add: fetchFromAPI_def)

lemma handle_event_calls_updateAll:
  "\<exists>d1. handle_event toNumber fetch k ev (st, d) =
          (fst (handle_event toNumber fetch k ev (st, d)),
           updateAll toNumber fetch k (fst (handle_event toNumber fetch k ev (st, d))) d1)"
  by (cases ev; simp add: setSex_def Let_def; blast)

lemma rendered_not_loading:
  "rendered r ds d \<Longrightarrow> innerHTML (riskDiffVal d) \<noteq> [Str ''Analyzing...'']"
  by (simp add: rendered_def)

lemma convert_unexpected_shape:
  assumes "unexpected_shape j"
  shows "\<exists>e. convertAPIResponse toNumber j st = Inl e"
proof (cases j)
  case (JObj kvs)
  have rp: "map_of kvs ''risk_probability'' = None"
    using assms JObj by (simp add: unexpected_shape_def)
  show ?thesis
  proof (cases "map_of kvs ''prediction''")
    case None
    then show ?thesis using JObj rp by (simp add: convertAPIResponse_def)
  next
    case (Some p)
    then have np: "\<not> has_field p ''risk_probability''"
      using assms JObj by (simp add: unexpected_shape_def)
    then show ?thesis using JObj rp Some
      by (cases p) (simp_all add: convertAPIResponse_def)
  qed
qed (simp_all add: convertAPIResponse_def)

lemma fetch_unexpected_shape:
  assumes "fetch (apiData st) = Inr resp" "ok resp" "body resp = Inr j" "unexpected_shape j"
  shows "\<exists>e. fetchFromAPI toNumber fetch st = Inl e"
proof -
  obtain e where e: "convertAPIResponse toNumber j st = Inl e"
    using convert_unexpected_shape [OF assms(4)] by blast
  show ?thesis
  proof (cases "get_prop j ''error''")
    case (Inl a)
    then show ?thesis using assms(1-3) by (simp add: fetchFromAPI_def)
  next
    case (Inr err)
    then show ?thesis using assms(1-3) e by (simp add: fetchFromAPI_def)
  qed
qed

section \<open>The stat tiles: who carries the class\<close>

lemma has_class_remove_class:
  "has_class c n (remove_class c' m pg) = (has_class c n pg \<and> \<not> (n = m \<and> c = c'))"
  by (auto simp: has_class_def remove_class_def update_elem_def classList_remove_def)

lemma has_class_add_class:
  "has_class c n (add_class c' m pg) = (has_class c n pg \<or> (n = m \<and> c = c'))"
  by (auto simp: has_class_def add_class_def update_elem_def classList_add_def)

lemma has_class_fold_remove:
  "has_class c n (fold (remove_class c) ns pg) = (has_class c n pg \<and> n \<notin> set ns)"
  by (induction ns arbitrary: pg) (auto simp: has_class_remove_class)

lemma has_class_setTimeout: "has_class c n (setTimeout a ms pg) = has_class c n pg"
  by (simp add: has_class_def setTimeout_def)

lemma has_class_createRipple: "has_class c n (createRipple e m pg) = has_class c n pg"
  by (simp add: has_class_def createRipple_def Let_def setTimeout_def update_elem_def)

lemma has_class_set_animation:
  "has_class c n (update_elem m (\<lambda>e. e\<lparr>style_animation := a\<rparr>) pg) = has_class c n pg"
  by (simp add: has_class_def update_elem_def)

lemma has_class_stat_click:
  "has_class ''active'' n (stat_click statEls dots s i e pg) =
     (n = s \<or> (i < length dots \<and> n = dots ! i) \<or>
      (has_class ''active'' n pg \<and> n \<notin> set statEls \<and> n \<notin> set dots))"
  unfolding stat_click_def Let_def has_class_setTimeout has_class_set_animation
    has_class_createRipple
  by (cases "i < length dots")
     (simp_all only: has_class_add_class has_class_fold_remove if_True if_False, blast+)

lemma stat_handlers_nth:
  "i < length statEls \<Longrightarrow>
     stat_handlers statEls dots ! i = stat_click statEls dots (statEls ! i) i"
  by (simp add: stat_handlers_def nth_enumerate_eq)

lemma disjoint_members_differ:
  assumes "A \<inter> B = {}" "x \<in> A" "y \<in> B"
  shows "x \<noteq> y"
  using assms by (metis IntI empty_iff)

lemma exclusive_stat:
  fixes statEls dots :: "nat list"
  assumes "distinct statEls" and "set statEls \<inter> set dots = {}"
    and "i < length statEls" and "j < length statEls"
    and key: "\<And>n. A n = (n = statEls ! i \<or> (i < length dots \<and> n = dots ! i) \<or>
                    (B n \<and> n \<notin> set statEls \<and> n \<notin> set dots))"
  shows "A (statEls ! j) = (j = i)"
proof -
  have mem: "statEls ! j \<in> set statEls" using assms(4) by (rule nth_mem)
  have eq: "(statEls ! j = statEls ! i) = (j = i)"
    using assms(1,4,3) by (rule nth_eq_iff_index_eq)
  show ?thesis
  proof (cases "i < length dots")
    case True
    then have "dots ! i \<in> set dots" by (rule nth_mem)
    with assms(2) mem have "statEls ! j \<noteq> dots ! i" by (rule disjoint_members_differ)
    then show ?thesis using True mem eq by (simp add: key)
  next
    case False
    then show ?thesis using mem eq by (simp add: key)
  qed
qed

lemma exclusive_dot:
  fixes statEls dots :: "nat list"
  assumes "distinct dots" and "set statEls \<inter> set dots = {}"
    and "i < length statEls" and "k < length dots"
    and key: "\<And>n. A n = (n = statEls ! i \<or> (i < length dots \<and> n = dots ! i) \<or>
                    (B n \<and> n \<notin> set statEls \<and> n \<notin> set dots))"
  shows "A (dots ! k) = (k = i)"
proof -
  have si: "statEls ! i \<in> set statEls" using assms(3) by (rule nth_mem)
  have mem: "dots ! k \<in> set dots" using assms(4) by (rule nth_mem)
  have "statEls ! i \<noteq> dots ! k" using assms(2) si mem by (rule disjoint_members_differ)
  then have ne: "dots ! k \<noteq> statEls ! i" by (rule not_sym)
  show ?thesis
  proof (cases "i < length dots")
    case True
    have "(dots ! k = dots ! i) = (k = i)"
      using assms(1,4) True by (rule nth_eq_iff_index_eq)
    then show ?thesis using True mem ne by (simp add: key)
  next
    case False
    then have "k \<noteq> i" using assms(4) by auto
    then show ?thesis using False mem ne by (simp add: key)
  qed
qed

section \<open>The claims\<close>

text \<open>
  Claim C1, as the code has it. For sex male, age 35, sertraline and dose 50 the first
  element of the male curve is the minimum of 95 and
  round(12 * 1.0 * 1.05 * doseFactor(50) * 10) / 10, where doseFactor(50) is
  1 + ln(1 + 50/20)/3: the age factor is 1 + max(0, 35 - 30)/100 = 1.05. The value is 17.9.
\<close>

theorem example_male_first_point:
  "maleCurve (computeRiskCurve \<lparr>sex = ''male'', age = 35, med = ''sertraline'', dose = 50\<rparr>) ! 0 =
     Fin (min 95 (of_int (round (12 * 1.0 * 1.05 * (1 + ln (1 + 50 / 20) / 3) * 10 :: real)) / 10)) \<and>
   maleCurve (computeRiskCurve \<lparr>sex = ''male'', age = 35, med = ''sertraline'', dose = 50\<rparr>) ! 0 =
     Fin 17.9 \<and>
   doseFactor 50 = Fin (1 + ln (1 + 50 / 20) / 3)"
  unfolding example_male_raw round_def example_floor_code
  by (simp add: doseFactor_Fin)

text \<open>
  Claim C1 as it is written, with the age factor 1.0, names 17.0 and not the value that
  the code computes.
\<close>

theorem example_male_first_point_counterexample:
  "maleCurve (computeRiskCurve \<lparr>sex = ''male'', age = 35, med = ''sertraline'', dose = 50\<rparr>) ! 0 \<noteq>
     Fin (min 95 (of_int (round (12 * 1.0 * 1.0 * (1 + ln (1 + 50 / 20) / 3) * 10 :: real)) / 10))"
  unfolding example_male_raw round_def example_floor_code example_floor_spec
  by simp

text \<open>
  Claim C2. For every input event, if the remote prediction fails for the form state that
  the event leaves, the update ends rendered from the local formula once the pending
  timers have fired: the chart shows the two local curves, the three texts show the local
  summary, no timer is left, and the first text is not the loading placeholder. This holds
  for every number \<open>k\<close> of timers that fire while the request is pending, and for one
  update at a time.
\<close>

theorem update_renders_fallback_on_failure:
  assumes "fetchFromAPI toNumber fetch (fst (handle_event toNumber fetch k ev (st, d))) = Inl e"
  shows "rendered (computeRiskCurve (fst (handle_event toNumber fetch k ev (st, d))))
           (dose (fst (handle_event toNumber fetch k ev (st, d))))
           (run_timers (snd (handle_event toNumber fetch k ev (st, d)))) \<and>
         innerHTML (riskDiffVal (run_timers (snd (handle_event toNumber fetch k ev (st, d))))) \<noteq>
           [Str ''Analyzing...'']"
proof -
  let ?st = "fst (handle_event toNumber fetch k ev (st, d))"
  obtain d1 where "handle_event toNumber fetch k ev (st, d) = (?st, updateAll toNumber fetch k ?st d1)"
    using handle_event_calls_updateAll by blast
  then have "snd (handle_event toNumber fetch k ev (st, d)) = updateAll toNumber fetch k ?st d1"
    by (metis snd_conv)
  then have "rendered (computeRiskCurve ?st) (dose ?st)
               (run_timers (snd (handle_event toNumber fetch k ev (st, d))))"
    using updateAll_fallback [OF assms, of k d1] by simp
  then show ?thesis using rendered_not_loading by blast
qed

theorem update_renders_fallback_on_failure_witness:
  "fetchFromAPI (\<lambda>v. NaN) (\<lambda>q. Inl NetworkError)
     (fst (handle_event (\<lambda>v. NaN) (\<lambda>q. Inl NetworkError) 2 ClickFemale
             (initial_state, initial_dashboard))) = Inl NetworkError \<and>
   rendered (computeRiskCurve (initial_state\<lparr>sex := ''female''\<rparr>)) 50
     (run_timers (snd (handle_event (\<lambda>v. NaN) (\<lambda>q. Inl NetworkError) 2 ClickFemale
                         (initial_state, initial_dashboard)))) \<and>
   innerHTML (riskDiffVal (run_timers (snd (handle_event (\<lambda>v. NaN) (\<lambda>q. Inl NetworkError) 2
                         ClickFemale (initial_state, initial_dashboard))))) \<noteq> [Str ''Analyzing...'']"
proof -
  have f: "fetchFromAPI (\<lambda>v. NaN) (\<lambda>q. Inl NetworkError)
     (fst (handle_event (\<lambda>v. NaN) (\<lambda>q. Inl NetworkError) 2 ClickFemale
             (initial_state, initial_dashboard))) = Inl NetworkError"
    by (simp add: fetchFromAPI_def)
  have s: "fst (handle_event (\<lambda>v. NaN) (\<lambda>q. Inl NetworkError) 2 ClickFemale
             (initial_state, initial_dashboard)) = initial_state\<lparr>sex := ''female''\<rparr>"
    by (simp add: setSex_def Let_def)
  have "dose (initial_state\<lparr>sex := ''female''\<rparr>) = 50" by (simp add: initial_state_def)
  then show ?thesis using update_renders_fallback_on_failure [OF f] f s by simp
qed

text \<open>
  Claim C3, as the code has it. The recommendation is the adjusted one exactly when the
  sex is female and the relative risk gap diffPct exceeds 15; its dose is then
  max(1, round(dose * 0.8)), and otherwise the recommended dose is the input dose
  unchanged. For every dose above 2.5 the recommended dose is below the input dose exactly
  when the sex is female and diffPct exceeds 15.
\<close>

theorem recommendation_reduces:
  "recommendation (computeRiskCurve st) =
     (if sex st = ''female'' \<and> js_gt (diffPct (computeRiskCurve st)) (Fin 15)
      then \<lparr>rec_text = [Str ''Recommended: '',
                        Num (Fin (max 1 (of_int (round (dose st * 0.8))))),
                        Str '' mg (optimized for female metabolism)''],
            rec_dose = Some (Fin (max 1 (of_int (round (dose st * 0.8)))))\<rparr>
      else \<lparr>rec_text = [Str ''Recommended: '', Num (Fin (dose st)), Str '' mg (no change)''],
            rec_dose = Some (Fin (dose st))\<rparr>) \<and>
   (5 / 2 < dose st \<longrightarrow>
      (\<exists>r. rec_dose (recommendation (computeRiskCurve st)) = Some (Fin r) \<and> r < dose st) =
      (sex st = ''female'' \<and> js_gt (diffPct (computeRiskCurve st)) (Fin 15)))"
proof (intro conjI impI)
  show "recommendation (computeRiskCurve st) =
     (if sex st = ''female'' \<and> js_gt (diffPct (computeRiskCurve st)) (Fin 15)
      then \<lparr>rec_text = [Str ''Recommended: '',
                        Num (Fin (max 1 (of_int (round (dose st * 0.8))))),
                        Str '' mg (optimized for female metabolism)''],
            rec_dose = Some (Fin (max 1 (of_int (round (dose st * 0.8)))))\<rparr>
      else \<lparr>rec_text = [Str ''Recommended: '', Num (Fin (dose st)), Str '' mg (no change)''],
            rec_dose = Some (Fin (dose st))\<rparr>)"
    by (rule recommendation_branch)
next
  assume big: "5 / 2 < dose st"
  show "(\<exists>r. rec_dose (recommendation (computeRiskCurve st)) = Some (Fin r) \<and> r < dose st) =
        (sex st = ''female'' \<and> js_gt (diffPct (computeRiskCurve st)) (Fin 15))"
  proof (cases "sex st = ''female'' \<and> js_gt (diffPct (computeRiskCurve st)) (Fin 15)")
    case True
    then have "rec_dose (recommendation (computeRiskCurve st)) =
                 Some (Fin (max 1 (of_int (round (dose st * 0.8)))))"
      by (simp add: recommendation_branch)
    moreover have "max 1 (of_int (round (dose st * 0.8))) < dose st"
      using big by (rule reduced_dose_below)
    ultimately have "\<exists>r. rec_dose (recommendation (computeRiskCurve st)) = Some (Fin r) \<and> r < dose st"
      by blast
    then show ?thesis using True by simp
  next
    case False
    then have "recommendation (computeRiskCurve st) =
        \<lparr>rec_text = [Str ''Recommended: '', Num (Fin (dose st)), Str '' mg (no change)''],
         rec_dose = Some (Fin (dose st))\<rparr>"
      by (simp only: recommendation_branch if_False)
    then have "rec_dose (recommendation (computeRiskCurve st)) = Some (Fin (dose st))"
      by simp
    then have none: "\<not> (\<exists>r. rec_dose (recommendation (computeRiskCurve st)) = Some (Fin r) \<and> r < dose st)"
      by simp
    show ?thesis by (simp only: none False simp_thms)
  qed
qed

theorem recommendation_reduces_witness:
  "5 / 2 < dose \<lparr>sex = ''female'', age = 35, med = ''sertraline'', dose = 50\<rparr> \<and>
   recommendation (computeRiskCurve \<lparr>sex = ''female'', age = 35, med = ''sertraline'', dose = 50\<rparr>) =
     \<lparr>rec_text = [Str ''Recommended: '', Num (Fin 40), Str '' mg (optimized for female metabolism)''],
      rec_dose = Some (Fin 40)\<rparr> \<and>
   (\<exists>r. rec_dose (recommendation (computeRiskCurve
            \<lparr>sex = ''female'', age = 35, med = ''sertraline'', dose = 50\<rparr>)) = Some (Fin r) \<and> r < 50) \<and>
   recommendation (computeRiskCurve \<lparr>sex = ''male'', age = 35, med = ''sertraline'', dose = 50\<rparr>) =
     \<lparr>rec_text = [Str ''Recommended: '', Num (Fin 50), Str '' mg (no change)''],
      rec_dose = Some (Fin 50)\<rparr>"
proof -
  have r: "round (50 * 0.8 :: real) = 40" by (simp add: round_def)
  have g: "js_gt (Fin 26) (Fin 15)" by (simp add: js_gt_def)
  show ?thesis
    using recommendation_reduces [of "\<lparr>sex = ''female'', age = 35, med = ''sertraline'', dose = 50\<rparr>"]
      recommendation_reduces [of "\<lparr>sex = ''male'', age = 35, med = ''sertraline'', dose = 50\<rparr>"]
    by (simp add: example_usual_dose_diffPct r g)
qed

text \<open>
  Claim C3 as it is written, that the dose is reduced if and only if the sex is female
  and diffPct exceeds 15, fails at a low dose: for a female patient of 30 on sertraline at
  dose 2 the gap is 26, and the recommended dose max(1, round(1.6)) is 2, the input dose.
\<close>

theorem recommendation_reduces_counterexample:
  "sex \<lparr>sex = ''female'', age = 30, med = ''sertraline'', dose = 2\<rparr> = ''female'' \<and>
   js_gt (diffPct (computeRiskCurve \<lparr>sex = ''female'', age = 30, med = ''sertraline'', dose = 2\<rparr>)) (Fin 15) \<and>
   rec_dose (recommendation (computeRiskCurve
      \<lparr>sex = ''female'', age = 30, med = ''sertraline'', dose = 2\<rparr>)) = Some (Fin 2) \<and>
   \<not> (\<exists>r. rec_dose (recommendation (computeRiskCurve
            \<lparr>sex = ''female'', age = 30, med = ''sertraline'', dose = 2\<rparr>)) = Some (Fin r) \<and>
          r < dose \<lparr>sex = ''female'', age = 30, med = ''sertraline'', dose = 2\<rparr>)"
proof -
  have r: "round (8 / 5 :: real) = 2" by (simp add: round_def)
  have g: "js_gt (Fin 26) (Fin 15)" by (simp add: js_gt_def)
  have "rec_dose (recommendation (computeRiskCurve
      \<lparr>sex = ''female'', age = 30, med = ''sertraline'', dose = 2\<rparr>)) = Some (Fin 2)"
    by (simp add: recommendation_branch example_low_dose_diffPct g r)
  then show ?thesis by (simp add: example_low_dose_diffPct g)
qed

text \<open>
  Claim C4. For every dose of at least 1, every element of the female and of the male
  curve lies between 0 and 95. This holds for every sex and age, and for every medication
  key that is not a name inherited from \<open>Object.prototype\<close>: the three supported keys and
  every key that gets the default rate.
\<close>

theorem curve_values_in_range:
  assumes "1 \<le> dose st" and "med st \<notin> set inherited_keys"
  shows "\<forall>v \<in> set (femaleCurve (computeRiskCurve st)) \<union> set (maleCurve (computeRiskCurve st)).
           js_le (Fin 0) v \<and> js_le v (Fin 95)"
proof -
  obtain b where b: "js_mul (medBase (med st)) (Fin 100) = Fin b" "0 \<le> b"
    using base_nonneg [OF assms(2)] by blast
  obtain s where s: "sexMult (sex st) = Fin s" "1 \<le> s" using sexMult_pos by blast
  obtain a where a: "ageMult (age st) = Fin a" "1 \<le> a" using ageMult_pos by blast
  obtain f where f: "doseFactor (dose st) = Fin f" "1 \<le> f"
    using doseFactor_nonneg_dose [of "dose st"] assms by auto
  have fem: "js_le (Fin 0) (curve_point (Fin b) (Fin s) (Fin a) (Fin f) i) \<and>
             js_le (curve_point (Fin b) (Fin s) (Fin a) (Fin f) i) (Fin 95)" for i
    using b s a f by (intro curve_point_range) simp_all
  have mal: "js_le (Fin 0) (curve_point (Fin b) (Fin 1.0) (Fin a) (Fin f) i) \<and>
             js_le (curve_point (Fin b) (Fin 1.0) (Fin a) (Fin f) i) (Fin 95)" for i
    using b a f by (intro curve_point_range) simp_all
  show ?thesis
    unfolding femaleCurve_eq maleCurve_eq b s a f using fem mal by auto
qed

theorem curve_values_in_range_witness:
  "1 \<le> dose \<lparr>sex = ''male'', age = 35, med = ''sertraline'', dose = 50\<rparr> \<and>
   med \<lparr>sex = ''male'', age = 35, med = ''sertraline'', dose = 50\<rparr> \<notin> set inherited_keys \<and>
   js_le (Fin 0) (maleCurve (computeRiskCurve \<lparr>sex = ''male'', age = 35, med = ''sertraline'', dose = 50\<rparr>) ! 0) \<and>
   js_le (maleCurve (computeRiskCurve \<lparr>sex = ''male'', age = 35, med = ''sertraline'', dose = 50\<rparr>) ! 0) (Fin 95)"
proof -
  let ?st = "\<lparr>sex = ''male'', age = 35, med = ''sertraline'', dose = 50\<rparr>"
  have d: "1 \<le> dose ?st" by simp
  have m: "med ?st \<notin> set inherited_keys" by (simp add: inherited_keys_def)
  have "maleCurve (computeRiskCurve ?st) ! 0 \<in> set (maleCurve (computeRiskCurve ?st))"
    by (intro nth_mem) (simp add: maleCurve_eq)
  then show ?thesis using curve_values_in_range [OF d m] d m by blast
qed

text \<open>
  Claim C5, as the code has it. When the dose factor 1 + ln(1 + dose/20)/3 is a
  non-negative number, which it is for every dose of at least 0, and the medication key is
  not a name inherited from \<open>Object.prototype\<close>, each of the two curves is non-decreasing
  over its five time points.
\<close>

theorem curves_nondecreasing:
  assumes "js_le (Fin 0) (doseFactor (dose st))" and "med st \<notin> set inherited_keys"
    and "i \<le> j" and "j < 5"
  shows "js_le (femaleCurve (computeRiskCurve st) ! i) (femaleCurve (computeRiskCurve st) ! j) \<and>
         js_le (maleCurve (computeRiskCurve st) ! i) (maleCurve (computeRiskCurve st) ! j)"
proof -
  obtain b where b: "js_mul (medBase (med st)) (Fin 100) = Fin b" "0 \<le> b"
    using base_nonneg [OF assms(2)] by blast
  obtain s where s: "sexMult (sex st) = Fin s" "1 \<le> s" using sexMult_pos by blast
  obtain a where a: "ageMult (age st) = Fin a" "1 \<le> a" using ageMult_pos by blast
  obtain f where f: "doseFactor (dose st) = Fin f" "0 \<le> f"
    using doseFactor_nonnegD [OF assms(1)] by blast
  have i: "i < 5" using assms(3,4) by simp
  have "js_le (curve_point (Fin b) (Fin s) (Fin a) (Fin f) i)
              (curve_point (Fin b) (Fin s) (Fin a) (Fin f) j)"
    using b s a f assms(3) by (intro curve_point_mono_index) simp_all
  moreover have "js_le (curve_point (Fin b) (Fin 1.0) (Fin a) (Fin f) i)
              (curve_point (Fin b) (Fin 1.0) (Fin a) (Fin f) j)"
    using b a f assms(3) by (intro curve_point_mono_index) simp_all
  ultimately show ?thesis
    unfolding femaleCurve_nth [OF i] femaleCurve_nth [OF assms(4)]
      maleCurve_nth [OF i] maleCurve_nth [OF assms(4)] b s a f by blast
qed

theorem curves_nondecreasing_witness:
  "js_le (Fin 0) (doseFactor (dose \<lparr>sex = ''female'', age = 35, med = ''sertraline'', dose = 50\<rparr>)) \<and>
   med \<lparr>sex = ''female'', age = 35, med = ''sertraline'', dose = 50\<rparr> \<notin> set inherited_keys \<and>
   (0::nat) \<le> 4 \<and> (4::nat) < 5 \<and>
   js_le (femaleCurve (computeRiskCurve \<lparr>sex = ''female'', age = 35, med = ''sertraline'', dose = 50\<rparr>) ! 0)
         (femaleCurve (computeRiskCurve \<lparr>sex = ''female'', age = 35, med = ''sertraline'', dose = 50\<rparr>) ! 4) \<and>
   js_le (maleCurve (computeRiskCurve \<lparr>sex = ''female'', age = 35, med = ''sertraline'', dose = 50\<rparr>) ! 0)
         (maleCurve (computeRiskCurve \<lparr>sex = ''female'', age = 35, med = ''sertraline'', dose = 50\<rparr>) ! 4)"
proof -
  let ?st = "\<lparr>sex = ''female'', age = 35, med = ''sertraline'', dose = 50\<rparr>"
  have d: "js_le (Fin 0) (doseFactor (dose ?st))" using example_dose_factor_nonneg by simp
  have m: "med ?st \<notin> set inherited_keys" by (simp add: inherited_keys_def)
  show ?thesis using curves_nondecreasing [OF d m, of 0 4] d m by simp
qed

text \<open>
  Claim C5 as it is written, for every input, fails: at dose -19.9 the dose factor is
  negative and the male curve falls from its first to its second point.
\<close>

theorem curves_nondecreasing_counterexample:
  "\<not> js_le (maleCurve (computeRiskCurve \<lparr>sex = ''male'', age = 30, med = ''sertraline'', dose = - 19.9\<rparr>) ! 0)
            (maleCurve (computeRiskCurve \<lparr>sex = ''male'', age = 30, med = ''sertraline'', dose = - 19.9\<rparr>) ! 1)"
proof -
  obtain f where f: "doseFactor (- 19.9) = Fin f" "f \<le> - 1 / 3"
    using doseFactor_low by blast
  have "12 * (1 + real 1 * 0.06) * 1.0 * 1 * f + 1 / 10 \<le> 12 * (1 + real 0 * 0.06) * 1.0 * 1 * f"
    using f(2) by simp
  moreover have "12 * (1 + real 0 * 0.06) * 1.0 * 1 * f \<le> 0" using f(2) by simp
  ultimately have
    "min 95 (of_int \<lfloor>12 * (1 + real 1 * 0.06) * 1.0 * 1 * f * 10 + 1 / 2\<rfloor> / 10) + 1 / 10
       \<le> min (95::real) (of_int \<lfloor>12 * (1 + real 0 * 0.06) * 1.0 * 1 * f * 10 + 1 / 2\<rfloor> / 10)"
    by (rule round_clamp_strict(1))
  then have "\<not> js_le (curve_point (Fin 12) (Fin 1.0) (Fin 1) (Fin f) 0)
                      (curve_point (Fin 12) (Fin 1.0) (Fin 1) (Fin f) 1)"
    unfolding curve_point_Fin js_le.simps by linarith
  then show ?thesis
    by (simp add: maleCurve_nth medBase_sertraline ageMult_Fin f(1))
qed

text \<open>
  Claim C6. When the response is a JSON value with neither a top-level
  \<open>risk_probability\<close> field nor a nested \<open>prediction.risk_probability\<close> field, the
  conversion raises an error, the request as a whole fails, and the update ends rendered
  from the local formula.
\<close>

theorem unexpected_shape_falls_back:
  assumes "fetch (apiData st) = Inr resp" "ok resp" "body resp = Inr j" "unexpected_shape j"
  shows "(\<exists>e. convertAPIResponse toNumber j st = Inl e) \<and>
         (\<exists>e. fetchFromAPI toNumber fetch st = Inl e) \<and>
         rendered (computeRiskCurve st) (dose st) (run_timers (updateAll toNumber fetch k st d))"
proof -
  obtain e where "fetchFromAPI toNumber fetch st = Inl e"
    using fetch_unexpected_shape [where fetch = fetch and st = st, OF assms] by blast
  then show ?thesis
    using convert_unexpected_shape [OF assms(4)] updateAll_fallback by blast
qed

theorem unexpected_shape_falls_back_witness:
  "unexpected_shape (JObj [(''status'', JStr ''ok'')]) \<and>
   convertAPIResponse (\<lambda>v. NaN) (JObj [(''status'', JStr ''ok'')]) initial_state =
     Inl (Error [Str ''Invalid API response structure'']) \<and>
   fetchFromAPI (\<lambda>v. NaN)
     (\<lambda>q. Inr \<lparr>ok = True, status = 200, body = Inr (JObj [(''status'', JStr ''ok'')])\<rparr>)
     initial_state = Inl (Error [Str ''Invalid API response structure'']) \<and>
   rendered (computeRiskCurve initial_state) (dose initial_state)
     (run_timers (updateAll (\<lambda>v. NaN)
        (\<lambda>q. Inr \<lparr>ok = True, status = 200, body = Inr (JObj [(''status'', JStr ''ok'')])\<rparr>)
        0 initial_state initial_dashboard))"
proof -
  let ?j = "JObj [(''status'', JStr ''ok'')]"
  let ?resp = "\<lparr>ok = True, status = 200, body = Inr ?j\<rparr>"
  have u: "unexpected_shape ?j" by (simp add: unexpected_shape_def)
  have c: "convertAPIResponse (\<lambda>v. NaN) ?j initial_state = Inl (Error [Str ''Invalid API response structure''])"
    by (simp add: convertAPIResponse_def invalid_structure_def)
  have f: "fetchFromAPI (\<lambda>v. NaN) (\<lambda>q. Inr ?resp) initial_state =
             Inl (Error [Str ''Invalid API response structure''])"
    by (simp add: fetchFromAPI_def c)
  have r: "(\<lambda>q. Inr ?resp) (apiData initial_state) = Inr ?resp" "ok ?resp" "body ?resp = Inr ?j"
    by simp_all
  from unexpected_shape_falls_back [where fetch = "\<lambda>q. Inr ?resp" and st = initial_state
      and toNumber = "\<lambda>v. NaN" and k = 0 and d = initial_dashboard, OF r u] u c f
  show ?thesis by simp
qed

text \<open>
  Claim C8. For every input the female and the male curve have exactly 5 elements, the
  length of the time-point sequence [1, 4, 8, 12, 48].
\<close>

theorem curve_lengths:
  "length (femaleCurve (computeRiskCurve st)) = 5 \<and>
   length (maleCurve (computeRiskCurve st)) = 5 \<and>
   times_pts (computeRiskCurve st) = [Fin 1, Fin 4, Fin 8, Fin 12, Fin 48] \<and>
   length (femaleCurve (computeRiskCurve st)) = length (times_pts (computeRiskCurve st)) \<and>
   length (maleCurve (computeRiskCurve st)) = length (times_pts (computeRiskCurve st))"
  by (simp add: femaleCurve_eq maleCurve_eq) (simp add: computeRiskCurve_def Let_def time_points_def)

text \<open>
  Claim C9. After the click handler of the stat tile at index \<open>i\<close> has run, a stat tile
  carries the class \<open>active\<close> exactly when it is that tile, and an indicator dot carries
  it exactly when it is the dot at index \<open>i\<close>. The two lists are what
  \<open>querySelectorAll\<close> returned: neither repeats an element, and no element is both a stat
  tile and an indicator dot.
\<close>

theorem click_activates_exactly_one:
  assumes "distinct statEls" and "distinct dots" and "set statEls \<inter> set dots = {}"
    and "i < length statEls"
  shows "(\<forall>j < length statEls.
            has_class ''active'' (statEls ! j) ((stat_handlers statEls dots ! i) e pg) = (j = i)) \<and>
         (\<forall>k < length dots.
            has_class ''active'' (dots ! k) ((stat_handlers statEls dots ! i) e pg) = (k = i))"
proof (intro conjI allI impI)
  have key: "has_class ''active'' n ((stat_handlers statEls dots ! i) e pg) =
       (n = statEls ! i \<or> (i < length dots \<and> n = dots ! i) \<or>
        (has_class ''active'' n pg \<and> n \<notin> set statEls \<and> n \<notin> set dots))" for n
    by (simp only: stat_handlers_nth [OF assms(4)] has_class_stat_click)
  {
    fix j assume "j < length statEls"
    from exclusive_stat [where A = "\<lambda>n. has_class ''active'' n ((stat_handlers statEls dots ! i) e pg)"
        and B = "\<lambda>n. has_class ''active'' n pg", OF assms(1,3,4) this key]
    show "has_class ''active'' (statEls ! j) ((stat_handlers statEls dots ! i) e pg) = (j = i)" .
  next
    fix k assume "k < length dots"
    from exclusive_dot [where A = "\<lambda>n. has_class ''active'' n ((stat_handlers statEls dots ! i) e pg)"
        and B = "\<lambda>n. has_class ''active'' n pg", OF assms(2,3,4) this key]
    show "has_class ''active'' (dots ! k) ((stat_handlers statEls dots ! i) e pg) = (k = i)" .
  }
qed

theorem click_activates_exactly_one_witness:
  "distinct [0, 1, 2::nat] \<and> distinct [3, 4, 5::nat] \<and> set [0, 1, 2::nat] \<inter> set [3, 4, 5] = {} \<and>
   (1::nat) < length [0, 1, 2::nat] \<and>
   \<not> has_class ''active'' 0 ((stat_handlers [0, 1, 2] [3, 4, 5] ! 1) \<lparr>clientX = 10, clientY = 20\<rparr> example_page) \<and>
   has_class ''active'' 1 ((stat_handlers [0, 1, 2] [3, 4, 5] ! 1) \<lparr>clientX = 10, clientY = 20\<rparr> example_page) \<and>
   \<not> has_class ''active'' 2 ((stat_handlers [0, 1, 2] [3, 4, 5] ! 1) \<lparr>clientX = 10, clientY = 20\<rparr> example_page) \<and>
   \<not> has_class ''active'' 3 ((stat_handlers [0, 1, 2] [3, 4, 5] ! 1) \<lparr>clientX = 10, clientY = 20\<rparr> example_page) \<and>
   has_class ''active'' 4 ((stat_handlers [0, 1, 2] [3, 4, 5] ! 1) \<lparr>clientX = 10, clientY = 20\<rparr> example_page) \<and>
   \<not> has_class ''active'' 5 ((stat_handlers [0, 1, 2] [3, 4, 5] ! 1) \<lparr>clientX = 10, clientY = 20\<rparr> example_page)"
proof -
  have h: "distinct [0, 1, 2::nat]" "distinct [3, 4, 5::nat]"
    "set [0, 1, 2::nat] \<inter> set [3, 4, 5] = {}" "(1::nat) < length [0, 1, 2::nat]"
    by simp_all
  note t = click_activates_exactly_one [OF h, of "\<lparr>clientX = 10, clientY = 20\<rparr>" example_page]
  have s: "has_class ''active'' ([0, 1, 2] ! j)
             ((stat_handlers [0, 1, 2] [3, 4, 5] ! 1) \<lparr>clientX = 10, clientY = 20\<rparr> example_page) = (j = 1)"
    if "j < 3" for j using t that by simp
  have d: "has_class ''active'' ([3, 4, 5] ! k)
             ((stat_handlers [0, 1, 2] [3, 4, 5] ! 1) \<lparr>clientX = 10, clientY = 20\<rparr> example_page) = (k = 1)"
    if "k < 3" for k using t that by simp
  show ?thesis using h s [of 0] s [of 1] s [of 2] d [of 0] d [of 1] d [of 2] by simp
qed

text \<open>
  Claim C10, as the code has it. When the dose factor is a non-negative number, which it
  is for every dose of at least 0, and the medication key is not a name inherited from
  \<open>Object.prototype\<close>, each element of the female curve is at least the corresponding
  element of the male curve, and diffPct is non-negative.
\<close>

theorem female_curve_dominates:
  assumes "js_le (Fin 0) (doseFactor (dose st))" and "med st \<notin> set inherited_keys"
  shows "(\<forall>i<5. js_le (maleCurve (computeRiskCurve st) ! i) (femaleCurve (computeRiskCurve st) ! i)) \<and>
         js_le (Fin 0) (diffPct (computeRiskCurve st))"
proof -
  obtain b where b: "js_mul (medBase (med st)) (Fin 100) = Fin b" "0 \<le> b"
    using base_nonneg [OF assms(2)] by blast
  obtain s where s: "sexMult (sex st) = Fin s" "1 \<le> s" using sexMult_pos by blast
  obtain a where a: "ageMult (age st) = Fin a" "1 \<le> a" using ageMult_pos by blast
  obtain f where f: "doseFactor (dose st) = Fin f" "0 \<le> f"
    using doseFactor_nonnegD [OF assms(1)] by blast
  have dom: "js_le (curve_point (Fin b) (Fin 1.0) (Fin a) (Fin f) i)
              (curve_point (Fin b) (Fin s) (Fin a) (Fin f) i)" for i
    using b s a f by (intro curve_point_mono_sex) simp_all
  have nth: "maleCurve (computeRiskCurve st) ! i = curve_point (Fin b) (Fin 1.0) (Fin a) (Fin f) i"
       "femaleCurve (computeRiskCurve st) ! i = curve_point (Fin b) (Fin s) (Fin a) (Fin f) i"
    if "i < 5" for i
    using that by (simp_all add: femaleCurve_nth maleCurve_nth b s a f)
  have part1: "\<forall>i<5. js_le (maleCurve (computeRiskCurve st) ! i) (femaleCurve (computeRiskCurve st) ! i)"
    using dom nth by simp
  obtain M where M: "curve_point (Fin b) (Fin 1.0) (Fin a) (Fin f) 2 = Fin M"
    by (simp add: curve_point_Fin)
  obtain F where F: "curve_point (Fin b) (Fin s) (Fin a) (Fin f) 2 = Fin F"
    by (simp add: curve_point_Fin)
  have "M \<le> F" using dom [of 2] M F by simp
  then have "0 \<le> (F - M) / max M 1 * 100" by simp
  then have "0 \<le> \<lfloor>(F - M) / max M 1 * 100 + 1 / 2\<rfloor>" by simp
  moreover have "diffPct (computeRiskCurve st) = Fin (of_int \<lfloor>(F - M) / max M 1 * 100 + 1 / 2\<rfloor>)"
    unfolding diffPct_eq using nth [of 2] M F by (simp only: diffPct_Fin)
  ultimately have "js_le (Fin 0) (diffPct (computeRiskCurve st))" by simp
  with part1 show ?thesis by blast
qed

theorem female_curve_dominates_witness:
  "js_le (Fin 0) (doseFactor (dose \<lparr>sex = ''female'', age = 35, med = ''sertraline'', dose = 50\<rparr>)) \<and>
   med \<lparr>sex = ''female'', age = 35, med = ''sertraline'', dose = 50\<rparr> \<notin> set inherited_keys \<and>
   js_le (maleCurve (computeRiskCurve \<lparr>sex = ''female'', age = 35, med = ''sertraline'', dose = 50\<rparr>) ! 2)
         (femaleCurve (computeRiskCurve \<lparr>sex = ''female'', age = 35, med = ''sertraline'', dose = 50\<rparr>) ! 2) \<and>
   js_le (Fin 0) (diffPct (computeRiskCurve \<lparr>sex = ''female'', age = 35, med = ''sertraline'', dose = 50\<rparr>))"
proof -
  let ?st = "\<lparr>sex = ''female'', age = 35, med = ''sertraline'', dose = 50\<rparr>"
  have d: "js_le (Fin 0) (doseFactor (dose ?st))" using example_dose_factor_nonneg by simp
  have m: "med ?st \<notin> set inherited_keys" by (simp add: inherited_keys_def)
  show ?thesis using female_curve_dominates [OF d m] d m by simp
qed

text \<open>
  Claim C10 as it is written, for every input, fails: at dose -19.9 the dose factor is
  negative, the first element of the female curve is below that of the male curve, and
  diffPct is negative.
\<close>

theorem female_curve_dominates_counterexample:
  "\<not> js_le (maleCurve (computeRiskCurve \<lparr>sex = ''female'', age = 30, med = ''sertraline'', dose = - 19.9\<rparr>) ! 0)
            (femaleCurve (computeRiskCurve \<lparr>sex = ''female'', age = 30, med = ''sertraline'', dose = - 19.9\<rparr>) ! 0) \<and>
   \<not> js_le (Fin 0) (diffPct (computeRiskCurve \<lparr>sex = ''female'', age = 30, med = ''sertraline'', dose = - 19.9\<rparr>))"
proof -
  obtain f where f: "doseFactor (- 19.9) = Fin f" "f \<le> - 1 / 3"
    using doseFactor_low by blast
  define M where "M i = min (95::real) (of_int \<lfloor>12 * (1 + real i * 0.06) * 1.0 * 1 * f * 10 + 1 / 2\<rfloor> / 10)" for i
  define F where "F i = min (95::real) (of_int \<lfloor>12 * (1 + real i * 0.06) * 1.26 * 1 * f * 10 + 1 / 2\<rfloor> / 10)" for i
  have raw: "12 * (1 + real i * 0.06) * 1.26 * 1 * f + 1 / 10 \<le> 12 * (1 + real i * 0.06) * 1.0 * 1 * f"
       "12 * (1 + real i * 0.06) * 1.0 * 1 * f \<le> 0" for i
  proof -
    have "1 \<le> 1 + real i * 0.06" by simp
    then have "(1 + real i * 0.06) * f \<le> 1 * f"
      using f(2) by (intro mult_right_mono_neg) simp_all
    then have *: "(1 + real i * 0.06) * f \<le> - 1 / 3" using f(2) by linarith
    define t where "t = (1 + real i * 0.06) * f"
    have t: "t \<le> - 1 / 3" using * by (simp add: t_def)
    have e1: "12 * (1 + real i * 0.06) * 1.26 * 1 * f = 378 / 25 * t"
      by (simp add: t_def algebra_simps)
    have e2: "12 * (1 + real i * 0.06) * 1.0 * 1 * f = 12 * t"
      by (simp add: t_def algebra_simps)
    show "12 * (1 + real i * 0.06) * 1.26 * 1 * f + 1 / 10 \<le> 12 * (1 + real i * 0.06) * 1.0 * 1 * f"
      unfolding e1 e2 using t by linarith
    show "12 * (1 + real i * 0.06) * 1.0 * 1 * f \<le> 0"
      unfolding e2 using t by linarith
  qed
  have FM: "F i + 1 / 10 \<le> M i" "M i \<le> 0" for i
    unfolding F_def M_def using round_clamp_strict [OF raw] by blast+
  have m: "maleCurve (computeRiskCurve \<lparr>sex = ''female'', age = 30, med = ''sertraline'', dose = - 19.9\<rparr>) ! i = Fin (M i)"
    and fe: "femaleCurve (computeRiskCurve \<lparr>sex = ''female'', age = 30, med = ''sertraline'', dose = - 19.9\<rparr>) ! i = Fin (F i)"
    if "i < 5" for i
    using that unfolding M_def F_def
    by (simp_all add: maleCurve_nth femaleCurve_nth medBase_sertraline ageMult_Fin f(1)
          sexMult_def curve_point_Fin)
  have "\<not> M 0 \<le> F 0" using FM [of 0] by linarith
  then have part1: "\<not> js_le (maleCurve (computeRiskCurve \<lparr>sex = ''female'', age = 30, med = ''sertraline'', dose = - 19.9\<rparr>) ! 0)
            (femaleCurve (computeRiskCurve \<lparr>sex = ''female'', age = 30, med = ''sertraline'', dose = - 19.9\<rparr>) ! 0)"
    by (simp add: m fe)
  have "max (M 2) 1 = 1" using FM(2) [of 2] by simp
  then have "(F 2 - M 2) / max (M 2) 1 * 100 + 1 / 2 < 0" using FM(1) [of 2] by simp
  then have "\<lfloor>(F 2 - M 2) / max (M 2) 1 * 100 + 1 / 2\<rfloor> < 0" by (simp add: floor_less_iff)
  moreover have m2: "maleCurve (computeRiskCurve \<lparr>sex = ''female'', age = 30, med = ''sertraline'', dose = - 19.9\<rparr>) ! 2 = Fin (M 2)"
    using m [of 2] by simp
  have f2: "femaleCurve (computeRiskCurve \<lparr>sex = ''female'', age = 30, med = ''sertraline'', dose = - 19.9\<rparr>) ! 2 = Fin (F 2)"
    using fe [of 2] by simp
  have "diffPct (computeRiskCurve \<lparr>sex = ''female'', age = 30, med = ''sertraline'', dose = - 19.9\<rparr>) =
          Fin (of_int \<lfloor>(F 2 - M 2) / max (M 2) 1 * 100 + 1 / 2\<rfloor>)"
    unfolding diffPct_eq m2 f2 by (rule diffPct_Fin)
  ultimately have part2: "\<not> js_le (Fin 0) (diffPct (computeRiskCurve \<lparr>sex = ''female'', age = 30, med = ''sertraline'', dose = - 19.9\<rparr>))"
    by simp
  from part1 part2 show ?thesis by blast
qed

end
